theory Spec2Isabelle
  imports Complex_Main "HOL-Library.Log_Nat"
begin

section \<open>Numbers\<close>

text \<open>
  The drawing canvas component exists in two versions in the repository: the typed one
  (\<^verbatim>\<open>src/components/Canvas.tsx\<close>, tool classes looked up through \<^verbatim>\<open>TOOL_MAP\<close>) and the
  untyped one (\<^verbatim>\<open>part_001\<close>, an if-chain on the element type and \<^verbatim>\<open>makeShapeElement\<close>).
  Both are embedded; the definitions of the untyped version carry the suffix \<open>_jsx\<close> where
  the name is shared.

  A JavaScript number is an IEEE 754 binary64 value: a finite double, given by the
  rational it denotes (\<open>Finite 0\<close> is \<open>+0\<close>), the negative zero, an infinity, or NaN.
  The arithmetic operators compute the exact result and round it to the nearest double,
  a tie going to the even significand, as the language requires.
\<close>

datatype number = Finite rat | NegZero | PosInf | NegInf | NaN

text \<open>The exponent \<open>e\<close> with \<open>2 ^ e \<le> \<bar>x\<bar> < 2 ^ (e + 1)\<close> of a rational other than zero,
  from the bit lengths of its numerator and denominator.\<close>

definition binade :: "rat \<Rightarrow> int" where
  "binade x =
     (let (p, q) = quotient_of \<bar>x\<bar>;
          d = bitlen p - bitlen q
      in if 2 powi d \<le> \<bar>x\<bar> then d else d - 1)"

text \<open>The nearest integer, a tie going to the even one.\<close>

definition round_half_even :: "rat \<Rightarrow> int" where
  "round_half_even v =
     (let f = \<lfloor>v\<rfloor>; d = v - of_int f
      in if d < 1 / 2 then f
         else if 1 / 2 < d then f + 1
         else if even f then f else f + 1)"

text \<open>Rounding a positive rational to binary64: 53 significant bits, so the spacing of
  the doubles around \<open>x\<close> is \<open>2 ^ (e - 52)\<close>, and not below \<open>2 ^ - 1074\<close> (the subnormal
  numbers). What rounds to \<open>2 ^ 1024\<close> or more is infinity; what rounds to nothing is
  zero.\<close>

definition round_mag :: "rat \<Rightarrow> number" where
  "round_mag x =
     (let q = max (binade x - 52) (- 1074);
          m = round_half_even (x / 2 powi q)
      in if 971 < q \<or> (q = 971 \<and> m = 2 ^ 53) then PosInf
         else Finite (of_int m * 2 powi q))"

text \<open>Unary minus.\<close>

fun js_neg :: "number \<Rightarrow> number" where
  "js_neg (Finite r) = (if r = 0 then NegZero else Finite (- r))"
| "js_neg NegZero = Finite 0"
| "js_neg PosInf = NegInf"
| "js_neg NegInf = PosInf"
| "js_neg NaN = NaN"

text \<open>Rounding is symmetric in the sign; an exact zero is \<open>+0\<close>.\<close>

definition round_double :: "rat \<Rightarrow> number" where
  "round_double x =
     (if x = 0 then Finite 0
      else if x < 0 then js_neg (round_mag (- x))
      else round_mag x)"

fun is_zero :: "number \<Rightarrow> bool" where
  "is_zero (Finite r) = (r = 0)"
| "is_zero NegZero = True"
| "is_zero _ = False"

fun is_inf :: "number \<Rightarrow> bool" where
  "is_inf PosInf = True"
| "is_inf NegInf = True"
| "is_inf _ = False"

fun is_finite :: "number \<Rightarrow> bool" where
  "is_finite (Finite r) = True"
| "is_finite NegZero = True"
| "is_finite _ = False"

text \<open>The sign bit.\<close>

fun negative :: "number \<Rightarrow> bool" where
  "negative (Finite r) = (r < 0)"
| "negative NegZero = True"
| "negative NegInf = True"
| "negative _ = False"

text \<open>The rational a finite number denotes.\<close>

fun the_rat :: "number \<Rightarrow> rat" where
  "the_rat (Finite r) = r"
| "the_rat _ = 0"

text \<open>\<^verbatim>\<open>x + y\<close>: NaN is contagious and the sum of opposite infinities is NaN; an infinity
  absorbs; two negative zeros give the negative zero; otherwise the exact sum is
  rounded.\<close>

definition js_add :: "number \<Rightarrow> number \<Rightarrow> number" where
  "js_add x y =
     (if x = NaN \<or> y = NaN then NaN
      else if is_inf x \<and> is_inf y then (if x = y then x else NaN)
      else if is_inf x then x
      else if is_inf y then y
      else if x = NegZero \<and> y = NegZero then NegZero
      else round_double (the_rat x + the_rat y))"

text \<open>\<^verbatim>\<open>x - y\<close> is \<^verbatim>\<open>x + (-y)\<close>.\<close>

definition js_sub :: "number \<Rightarrow> number \<Rightarrow> number" where
  "js_sub x y = js_add x (js_neg y)"

text \<open>\<^verbatim>\<open>x * y\<close>: an infinity times a zero is NaN; the sign of the result is the exclusive
  or of the signs.\<close>

definition js_mul :: "number \<Rightarrow> number \<Rightarrow> number" where
  "js_mul x y =
     (if x = NaN \<or> y = NaN then NaN
      else if is_inf x \<or> is_inf y then
        (if is_zero x \<or> is_zero y then NaN
         else if negative x \<noteq> negative y then NegInf else PosInf)
      else if is_zero x \<or> is_zero y then
        (if negative x \<noteq> negative y then NegZero else Finite 0)
      else round_double (the_rat x * the_rat y))"

text \<open>\<^verbatim>\<open>x / y\<close>: infinity by infinity and zero by zero are NaN; a division by zero is an
  infinity.\<close>

definition js_div :: "number \<Rightarrow> number \<Rightarrow> number" where
  "js_div x y =
     (if x = NaN \<or> y = NaN then NaN
      else if is_inf x then
        (if is_inf y then NaN
         else if negative x \<noteq> negative y then NegInf else PosInf)
      else if is_inf y then
        (if negative x \<noteq> negative y then NegZero else Finite 0)
      else if is_zero y then
        (if is_zero x then NaN
         else if negative x \<noteq> negative y then NegInf else PosInf)
      else if is_zero x then
        (if negative x \<noteq> negative y then NegZero else Finite 0)
      else round_double (the_rat x / the_rat y))"

fun Math_abs :: "number \<Rightarrow> number" where
  "Math_abs (Finite r) = Finite \<bar>r\<bar>"
| "Math_abs NegZero = Finite 0"
| "Math_abs PosInf = PosInf"
| "Math_abs NegInf = PosInf"
| "Math_abs NaN = NaN"

text \<open>The order \<^verbatim>\<open>Math.min\<close> compares by, on the numbers other than NaN: the negative zero
  is below the positive one.\<close>

fun rank :: "number \<Rightarrow> int" where
  "rank NegInf = - 1"
| "rank PosInf = 1"
| "rank _ = 0"

fun zero_le :: "number \<Rightarrow> number \<Rightarrow> bool" where
  "zero_le (Finite r) NegZero = False"
| "zero_le _ _ = True"

definition num_le :: "number \<Rightarrow> number \<Rightarrow> bool" where
  "num_le x y \<longleftrightarrow>
     rank x < rank y \<or>
     (rank x = rank y \<and>
       (the_rat x < the_rat y \<or> (the_rat x = the_rat y \<and> zero_le x y)))"

definition Math_min :: "number \<Rightarrow> number \<Rightarrow> number" where
  "Math_min x y =
     (if x = NaN \<or> y = NaN then NaN
      else if num_le x y then x else y)"

text \<open>\<^verbatim>\<open>Math.round\<close>: the nearest integer, a tie going up; a value from \<open>- 1 / 2\<close> up to, but
  not, zero gives the negative zero. No rounding to a double takes place: the result of
  a double is a double.\<close>

fun Math_round :: "number \<Rightarrow> number" where
  "Math_round (Finite r) =
     (if r < 0 \<and> - 1 / 2 \<le> r then NegZero else Finite (of_int \<lfloor>r + 1 / 2\<rfloor>))"
| "Math_round NegZero = NegZero"
| "Math_round PosInf = PosInf"
| "Math_round NegInf = NegInf"
| "Math_round NaN = NaN"

text \<open>\<^verbatim>\<open>Math.PI\<close>, the double nearest to \<open>\<pi>\<close>.\<close>

definition Math_PI :: number where
  "Math_PI = Finite (884279719003555 / 281474976710656)"

section \<open>Data model\<close>

text \<open>\<^verbatim>\<open>interface Point { x: number; y: number }\<close>; the fields are named \<open>px\<close>, \<open>py\<close> so
  that \<open>x\<close> and \<open>y\<close> stay usable as variables.\<close>

record point =
  px :: number
  py :: number

text \<open>The two members of \<^verbatim>\<open>HTMLImageElement\<close> the component reads: the intrinsic width and
  height, unsigned integers.\<close>

record HTMLImageElement =
  width :: nat
  height :: nat

text \<open>\<^verbatim>\<open>type ToolId = 'rect' | 'circle' | 'line' | 'draw' | 'image'\<close>\<close>

datatype ToolId = T_rect | T_circle | T_line | T_draw | T_image

text \<open>\<^verbatim>\<open>type CanvasElement = RectEl | CircleEl | LineEl | DrawEl | ImageEl\<close>, the fields in the
  order of the interfaces: \<open>RectEl x y w h\<close>, \<open>CircleEl cx cy rx ry\<close>, \<open>LineEl x1 y1 x2 y2\<close>,
  \<open>DrawEl path\<close>, \<open>ImageEl img x y w h\<close>.\<close>

datatype CanvasElement =
    RectEl number number number number
  | CircleEl number number number number
  | LineEl number number number number
  | DrawEl "point list"
  | ImageEl HTMLImageElement number number number number

text \<open>The discriminant \<^verbatim>\<open>el.type\<close>.\<close>

fun el_type :: "CanvasElement \<Rightarrow> ToolId" where
  "el_type (RectEl _ _ _ _) = T_rect"
| "el_type (CircleEl _ _ _ _) = T_circle"
| "el_type (LineEl _ _ _ _) = T_line"
| "el_type (DrawEl _) = T_draw"
| "el_type (ImageEl _ _ _ _ _) = T_image"

datatype error = TypeError

section \<open>The 2D rendering context\<close>

text \<open>The context is its drawing state (the three style attributes the component sets),
  the stack of saved drawing states, and the trace of the drawing calls issued so far.
  A fill or stroke is recorded with the style it was painted in.\<close>

datatype draw_op =
    ClearRect number number number number
  | BeginPath
  | PathRect number number number number
  | PathEllipse number number number number number number number
  | MoveTo number number
  | LineTo number number
  | Fill string
  | Stroke string number
  | DrawImage HTMLImageElement number number number number

record ctx2d =
  strokeStyle :: string
  lineWidth :: number
  fillStyle :: string
  saved :: "(string \<times> number \<times> string) list"
  ops :: "draw_op list"

definition emit :: "draw_op \<Rightarrow> ctx2d \<Rightarrow> ctx2d" where
  "emit opn ctx = ctx\<lparr>ops := ops ctx @ [opn]\<rparr>"

definition save :: "ctx2d \<Rightarrow> ctx2d" where
  "save ctx = ctx\<lparr>saved := (strokeStyle ctx, lineWidth ctx, fillStyle ctx) # saved ctx\<rparr>"

text \<open>\<^verbatim>\<open>restore()\<close> pops the saved state; on an empty stack it does nothing.\<close>

definition restore :: "ctx2d \<Rightarrow> ctx2d" where
  "restore ctx =
     (case saved ctx of
        [] \<Rightarrow> ctx
      | (ss, lw, fs) # rest \<Rightarrow>
          ctx\<lparr>strokeStyle := ss, lineWidth := lw, fillStyle := fs, saved := rest\<rparr>)"

definition beginPath :: "ctx2d \<Rightarrow> ctx2d" where
  "beginPath ctx = emit BeginPath ctx"

definition fill :: "ctx2d \<Rightarrow> ctx2d" where
  "fill ctx = emit (Fill (fillStyle ctx)) ctx"

definition stroke :: "ctx2d \<Rightarrow> ctx2d" where
  "stroke ctx = emit (Stroke (strokeStyle ctx) (lineWidth ctx)) ctx"

text \<open>The loop \<^verbatim>\<open>for (let i = 1; i < el.path.length; i++) ctx.lineTo(el.path[i].x, el.path[i].y)\<close>
  over the points after the first (\<open>drop 1\<close> of the path); \<^verbatim>\<open>el.path[0]\<close> is read only
  where the path has at least two points.\<close>

fun lineTo_each :: "point list \<Rightarrow> ctx2d \<Rightarrow> ctx2d" where
  "lineTo_each [] ctx = ctx"
| "lineTo_each (p # ps) ctx = lineTo_each ps (emit (LineTo (px p) (py p)) ctx)"

section \<open>Tools (Canvas.tsx)\<close>

text \<open>\<^verbatim>\<open>abstract class CanvasTool<E>\<close>: an object with \<open>id\<close>, \<open>label\<close>, \<open>cursor\<close>, \<open>draw\<close> and
  \<open>makeElement\<close>. A tool's \<open>draw\<close> is typed to receive its own element variant only; on
  the other variants, which \<open>drawElement\<close> never passes (lemma \<open>TOOL_MAP_el_type\<close>), the
  model leaves the context as it is.\<close>

record CanvasTool =
  tool_id :: ToolId
  label :: string
  cursor :: string
  draw :: "ctx2d \<Rightarrow> CanvasElement \<Rightarrow> ctx2d"
  makeElement :: "point \<Rightarrow> point \<Rightarrow> CanvasElement option"

definition RectTool_draw :: "ctx2d \<Rightarrow> CanvasElement \<Rightarrow> ctx2d" where
  "RectTool_draw ctx el =
     (case el of
        RectEl x y w h \<Rightarrow> stroke (fill (emit (PathRect x y w h) (beginPath ctx)))
      | _ \<Rightarrow> ctx)"

definition RectTool_makeElement :: "point \<Rightarrow> point \<Rightarrow> CanvasElement option" where
  "RectTool_makeElement start_pt end_pt =
     Some (RectEl (Math_min (px start_pt) (px end_pt))
                  (Math_min (py start_pt) (py end_pt))
                  (Math_abs (js_sub (px end_pt) (px start_pt)))
                  (Math_abs (js_sub (py end_pt) (py start_pt))))"

definition RectTool :: CanvasTool where
  "RectTool = \<lparr>tool_id = T_rect, label = ''rect'', cursor = ''crosshair'',
               draw = RectTool_draw, makeElement = RectTool_makeElement\<rparr>"

definition CircleTool_draw :: "ctx2d \<Rightarrow> CanvasElement \<Rightarrow> ctx2d" where
  "CircleTool_draw ctx el =
     (case el of
        CircleEl cx cy rx ry \<Rightarrow>
          stroke (fill (emit (PathEllipse cx cy rx ry (Finite 0) (Finite 0)
                                          (js_mul Math_PI (Finite 2)))
                             (beginPath ctx)))
      | _ \<Rightarrow> ctx)"

definition CircleTool_makeElement :: "point \<Rightarrow> point \<Rightarrow> CanvasElement option" where
  "CircleTool_makeElement start_pt end_pt =
     Some (CircleEl (js_div (js_add (px start_pt) (px end_pt)) (Finite 2))
                    (js_div (js_add (py start_pt) (py end_pt)) (Finite 2))
                    (js_div (Math_abs (js_sub (px end_pt) (px start_pt))) (Finite 2))
                    (js_div (Math_abs (js_sub (py end_pt) (py start_pt))) (Finite 2)))"

definition CircleTool :: CanvasTool where
  "CircleTool = \<lparr>tool_id = T_circle, label = ''circle'', cursor = ''crosshair'',
                 draw = CircleTool_draw, makeElement = CircleTool_makeElement\<rparr>"

definition LineTool_draw :: "ctx2d \<Rightarrow> CanvasElement \<Rightarrow> ctx2d" where
  "LineTool_draw ctx el =
     (case el of
        LineEl x1 y1 x2 y2 \<Rightarrow> stroke (emit (LineTo x2 y2) (emit (MoveTo x1 y1) (beginPath ctx)))
      | _ \<Rightarrow> ctx)"

definition LineTool_makeElement :: "point \<Rightarrow> point \<Rightarrow> CanvasElement option" where
  "LineTool_makeElement start_pt end_pt = Some (LineEl (px start_pt) (py start_pt) (px end_pt) (py end_pt))"

definition LineTool :: CanvasTool where
  "LineTool = \<lparr>tool_id = T_line, label = ''line'', cursor = ''crosshair'',
               draw = LineTool_draw, makeElement = LineTool_makeElement\<rparr>"

text \<open>The base class's \<open>makeElement\<close>, inherited by the freehand and the image tool,
  returns \<^verbatim>\<open>undefined\<close>.\<close>

definition CanvasTool_makeElement :: "point \<Rightarrow> point \<Rightarrow> CanvasElement option" where
  "CanvasTool_makeElement start_pt end_pt = None"

definition FreehandTool_draw :: "ctx2d \<Rightarrow> CanvasElement \<Rightarrow> ctx2d" where
  "FreehandTool_draw ctx el =
     (case el of
        DrawEl ps \<Rightarrow>
          (if length ps < 2 then ctx
           else stroke (lineTo_each (drop 1 ps)
                          (emit (MoveTo (px (ps ! 0)) (py (ps ! 0))) (beginPath ctx))))
      | _ \<Rightarrow> ctx)"

definition FreehandTool :: CanvasTool where
  "FreehandTool = \<lparr>tool_id = T_draw, label = ''draw'', cursor = ''crosshair'',
                   draw = FreehandTool_draw, makeElement = CanvasTool_makeElement\<rparr>"

definition ImageTool_draw :: "ctx2d \<Rightarrow> CanvasElement \<Rightarrow> ctx2d" where
  "ImageTool_draw ctx el =
     (case el of
        ImageEl img x y w h \<Rightarrow> emit (DrawImage img x y w h) ctx
      | _ \<Rightarrow> ctx)"

definition ImageTool :: CanvasTool where
  "ImageTool = \<lparr>tool_id = T_image, label = ''image'', cursor = ''default'',
                draw = ImageTool_draw, makeElement = CanvasTool_makeElement\<rparr>"

text \<open>The toolbar tools, without the image tool, and the object built from them by
  \<^verbatim>\<open>Object.fromEntries(TOOLS.map(t => [t.id, t]))\<close> (a later entry with the same key
  would replace an earlier one).\<close>

definition TOOLS :: "CanvasTool list" where
  "TOOLS = [RectTool, CircleTool, LineTool, FreehandTool]"

definition TOOL_MAP :: "ToolId \<rightharpoonup> CanvasTool" where
  "TOOL_MAP = fold (\<lambda>t m. m(tool_id t \<mapsto> t)) TOOLS Map.empty"

section \<open>Drawing one element\<close>

text \<open>Canvas.tsx: \<^verbatim>\<open>TOOL_MAP[el.type].draw(ctx, el)\<close> raises a TypeError where the lookup
  gives \<^verbatim>\<open>undefined\<close>; the error carries the context as the call left it.\<close>

definition drawElement :: "ctx2d \<Rightarrow> CanvasElement \<Rightarrow> (error \<times> ctx2d) + ctx2d" where
  "drawElement ctx0 el =
     (let ctx = save ctx0;
          ctx = ctx\<lparr>strokeStyle := ''#1a1a2e''\<rparr>;
          ctx = ctx\<lparr>lineWidth := Finite 2\<rparr>;
          ctx = ctx\<lparr>fillStyle := ''rgba(100, 149, 237, 0.25)''\<rparr>
      in case el of
           ImageEl img x y w h \<Rightarrow> Inr (restore (emit (DrawImage img x y w h) ctx))
         | _ \<Rightarrow>
           (case TOOL_MAP (el_type el) of
              None \<Rightarrow> Inl (TypeError, ctx)
            | Some t \<Rightarrow> Inr (restore (draw t ctx el))))"

text \<open>part\_001: the if-chain on \<^verbatim>\<open>el.type\<close>; the freehand branch returns from the function
  when the path has fewer than two points.\<close>

definition drawElement_jsx :: "ctx2d \<Rightarrow> CanvasElement \<Rightarrow> ctx2d" where
  "drawElement_jsx ctx0 el =
     (let ctx = save ctx0;
          ctx = ctx\<lparr>strokeStyle := ''#1a1a2e''\<rparr>;
          ctx = ctx\<lparr>lineWidth := Finite 2\<rparr>;
          ctx = ctx\<lparr>fillStyle := ''rgba(100, 149, 237, 0.25)''\<rparr>
      in case el of
           RectEl x y w h \<Rightarrow>
             restore (stroke (fill (emit (PathRect x y w h) (beginPath ctx))))
         | CircleEl cx cy rx ry \<Rightarrow>
             restore (stroke (fill (emit (PathEllipse cx cy rx ry (Finite 0) (Finite 0)
                                                      (js_mul Math_PI (Finite 2)))
                                         (beginPath ctx))))
         | LineEl x1 y1 x2 y2 \<Rightarrow>
             restore (stroke (emit (LineTo x2 y2) (emit (MoveTo x1 y1) (beginPath ctx))))
         | DrawEl ps \<Rightarrow>
             (if length ps < 2 then ctx
              else restore (stroke (lineTo_each (drop 1 ps)
                              (emit (MoveTo (px (ps ! 0)) (py (ps ! 0))) (beginPath ctx)))))
         | ImageEl img x y w h \<Rightarrow> restore (emit (DrawImage img x y w h) ctx))"

text \<open>part\_001: \<^verbatim>\<open>makeShapeElement(tool, start, end)\<close>. \<open>start\<close> may be \<^verbatim>\<open>null\<close> (the initial
  drag state); reading \<^verbatim>\<open>start.x\<close> then raises a TypeError. For a tool that is none of the
  three shapes the function falls off its end and returns \<^verbatim>\<open>undefined\<close>.\<close>

definition makeShapeElement ::
  "ToolId \<Rightarrow> point option \<Rightarrow> point \<Rightarrow> error + CanvasElement option" where
  "makeShapeElement t start_pt end_pt =
     (if t = T_rect then
        (case start_pt of
           None \<Rightarrow> Inl TypeError
         | Some s \<Rightarrow>
             Inr (Some (RectEl (Math_min (px s) (px end_pt)) (Math_min (py s) (py end_pt))
                               (Math_abs (js_sub (px end_pt) (px s)))
                               (Math_abs (js_sub (py end_pt) (py s))))))
      else if t = T_circle then
        (case start_pt of
           None \<Rightarrow> Inl TypeError
         | Some s \<Rightarrow>
             Inr (Some (CircleEl (js_div (js_add (px s) (px end_pt)) (Finite 2))
                                 (js_div (js_add (py s) (py end_pt)) (Finite 2))
                                 (js_div (Math_abs (js_sub (px end_pt) (px s))) (Finite 2))
                                 (js_div (Math_abs (js_sub (py end_pt) (py s))) (Finite 2)))))
      else if t = T_line then
        (case start_pt of
           None \<Rightarrow> Inl TypeError
         | Some s \<Rightarrow> Inr (Some (LineEl (px s) (py s) (px end_pt) (py end_pt))))
      else Inr None)"

section \<open>The component state\<close>

text \<open>\<^verbatim>\<open>drawingRef.current\<close>: \<^verbatim>\<open>{ active: boolean; start: Point | null; path: Point[] }\<close>.\<close>

record drawing =
  active :: bool
  start :: "point option"
  path :: "point list"

text \<open>The state of a mounted \<^verbatim>\<open>Canvas\<close>: the two \<^verbatim>\<open>useState\<close> cells, the drag state and the
  canvas's rendering context. \<^verbatim>\<open>elementsRef\<close> and \<^verbatim>\<open>toolRef\<close> are set to \<open>elements\<close> and
  \<open>tool\<close> on every render, so the handlers read the cells themselves here.\<close>

record state =
  elements :: "CanvasElement list"
  tool :: ToolId
  drawingRef :: drawing
  canvas :: ctx2d

text \<open>A mouse event, with the canvas's bounding rectangle as \<^verbatim>\<open>getBoundingClientRect()\<close>
  returns it when the event is handled.\<close>

record MouseEvent =
  clientX :: number
  clientY :: number
  rect_left :: number
  rect_top :: number

definition getPos :: "MouseEvent \<Rightarrow> point" where
  "getPos e = \<lparr>px = js_sub (clientX e) (rect_left e), py = js_sub (clientY e) (rect_top e)\<rparr>"

text \<open>The outcome of a handler: the new state, or the error raised and the state as the
  handler left it.\<close>

type_synonym outcome = "(error \<times> state) + state"

fun state_of :: "outcome \<Rightarrow> state" where
  "state_of (Inl (e, s)) = s"
| "state_of (Inr s) = s"

section \<open>Handlers (Canvas.tsx)\<close>

text \<open>\<^verbatim>\<open>elementsRef.current.forEach(el => drawElement(ctx, el))\<close>; an error ends the loop.\<close>

fun drawElements :: "CanvasElement list \<Rightarrow> ctx2d \<Rightarrow> (error \<times> ctx2d) + ctx2d" where
  "drawElements [] ctx = Inr ctx"
| "drawElements (el # els) ctx =
     (case drawElement ctx el of
        Inl err \<Rightarrow> Inl err
      | Inr ctx' \<Rightarrow> drawElements els ctx')"

text \<open>The canvas is 800 by 600.\<close>

definition redraw :: "CanvasElement option \<Rightarrow> state \<Rightarrow> outcome" where
  "redraw draft s =
     (case drawElements (elements s)
             (emit (ClearRect (Finite 0) (Finite 0) (Finite 800) (Finite 600)) (canvas s)) of
        Inl (err, ctx) \<Rightarrow> Inl (err, s\<lparr>canvas := ctx\<rparr>)
      | Inr ctx \<Rightarrow>
          (case draft of
             None \<Rightarrow> Inr (s\<lparr>canvas := ctx\<rparr>)
           | Some d \<Rightarrow>
               (case drawElement ctx d of
                  Inl (err, ctx') \<Rightarrow> Inl (err, s\<lparr>canvas := ctx'\<rparr>)
                | Inr ctx' \<Rightarrow> Inr (s\<lparr>canvas := ctx'\<rparr>))))"

text \<open>\<^verbatim>\<open>setElements(f)\<close> followed by the effect \<^verbatim>\<open>useEffect(() => { redraw() }, [elements])\<close>
  that the new list triggers.\<close>

definition setElements :: "(CanvasElement list \<Rightarrow> CanvasElement list) \<Rightarrow> state \<Rightarrow> outcome" where
  "setElements f s = redraw None (s\<lparr>elements := f (elements s)\<rparr>)"

definition setTool :: "ToolId \<Rightarrow> state \<Rightarrow> state" where
  "setTool t s = s\<lparr>tool := t\<rparr>"

definition onMouseDown :: "MouseEvent \<Rightarrow> state \<Rightarrow> state" where
  "onMouseDown e s =
     (let pos = getPos e
      in s\<lparr>drawingRef := \<lparr>active = True, start = Some pos, path = [pos]\<rparr>\<rparr>)"

definition onMouseMove :: "MouseEvent \<Rightarrow> state \<Rightarrow> outcome" where
  "onMouseMove e s =
     (if \<not> active (drawingRef s) then Inr s
      else
        let pos = getPos e;
            d = drawingRef s;
            t = tool s
        in if t = T_draw then
             (let s1 = s\<lparr>drawingRef := d\<lparr>path := path d @ [pos]\<rparr>\<rparr>
              in redraw (Some (DrawEl (path (drawingRef s1)))) s1)
           else
             (case start d of
                None \<Rightarrow> Inr s
              | Some st \<Rightarrow>
                  (case TOOL_MAP t of
                     None \<Rightarrow> Inl (TypeError, s)
                   | Some tool_obj \<Rightarrow> redraw (makeElement tool_obj st pos) s)))"

definition onMouseUp :: "MouseEvent \<Rightarrow> state \<Rightarrow> outcome" where
  "onMouseUp e s =
     (if \<not> active (drawingRef s) then Inr s
      else
        let pos = getPos e;
            d = drawingRef s;
            t = tool s;
            s1 = s\<lparr>drawingRef := d\<lparr>active := False\<rparr>\<rparr>
        in if t = T_draw then
             (let s2 = s1\<lparr>drawingRef := (drawingRef s1)\<lparr>path := path d @ [pos]\<rparr>\<rparr>
              in setElements (\<lambda>prev. prev @ [DrawEl (path (drawingRef s2))]) s2)
           else
             (case start d of
                None \<Rightarrow> Inr s1
              | Some st \<Rightarrow>
                  (case TOOL_MAP t of
                     None \<Rightarrow> Inl (TypeError, s1)
                   | Some tool_obj \<Rightarrow>
                       (case makeElement tool_obj st pos of
                          None \<Rightarrow> Inr s1
                        | Some el \<Rightarrow> setElements (\<lambda>prev. prev @ [el]) s1))))"

text \<open>The callback \<^verbatim>\<open>img.onload\<close> that \<open>onImageUpload\<close> installs, run when the selected file
  has been decoded into \<open>img\<close>. The width and height of the image are integers below
  \<open>2 ^ 32\<close>, hence doubles. The object URL is not modelled.\<close>

definition img_onload :: "HTMLImageElement \<Rightarrow> state \<Rightarrow> outcome" where
  "img_onload img s =
     (let w = Math_min (Finite (of_nat (width img))) (Finite 400);
          h = Math_round (js_mul (js_div (Finite (of_nat (height img)))
                                         (Finite (of_nat (width img)))) w)
      in setElements (\<lambda>prev. prev @ [ImageEl img (Finite 50) (Finite 50) w h]) s)"

text \<open>The clear button: \<^verbatim>\<open>onClick={() => setElements([])}\<close>.\<close>

definition clear :: "state \<Rightarrow> outcome" where
  "clear s = setElements (\<lambda>prev. []) s"

text \<open>The lookup \<^verbatim>\<open>TOOL_MAP[tool]\<close> of every render, read for the cursor style.\<close>

definition activeTool_cursor :: "state \<Rightarrow> error + string" where
  "activeTool_cursor s =
     (case TOOL_MAP (tool s) of
        None \<Rightarrow> Inl TypeError
      | Some t \<Rightarrow> Inr (cursor t))"

text \<open>What can happen to a mounted component. \<open>ToolButton i\<close> is a click on the \<open>i\<close>-th
  button that \<^verbatim>\<open>TOOLS.map\<close> renders in the toolbar; \<open>ImageLoaded img\<close> is the completion of a
  decode started by a file selection; \<open>MouseLeave\<close> is bound to \<open>onMouseUp\<close>.\<close>

datatype event =
    MouseDown MouseEvent
  | MouseMove MouseEvent
  | MouseUp MouseEvent
  | MouseLeave MouseEvent
  | ToolButton nat
  | ClearButton
  | ImageLoaded HTMLImageElement

fun handle :: "event \<Rightarrow> state \<Rightarrow> outcome" where
  "handle (MouseDown e) s = Inr (onMouseDown e s)"
| "handle (MouseMove e) s = onMouseMove e s"
| "handle (MouseUp e) s = onMouseUp e s"
| "handle (MouseLeave e) s = onMouseUp e s"
| "handle (ToolButton i) s =
     (if i < length TOOLS then Inr (setTool (tool_id (TOOLS ! i)) s) else Inr s)"
| "handle ClearButton s = clear s"
| "handle (ImageLoaded img) s = img_onload img s"

text \<open>An error raised by a handler does not unmount the component: the next event is
  handled in the state the failed handler left.\<close>

fun run :: "event list \<Rightarrow> state \<Rightarrow> state" where
  "run [] s = s"
| "run (ev # evs) s = run evs (state_of (handle ev s))"

text \<open>A fresh canvas context has the default styles. The component mounts with no
  elements, the rect tool and no drag; the effect then runs once.\<close>

definition fresh_ctx :: ctx2d where
  "fresh_ctx = \<lparr>strokeStyle = ''#000000'', lineWidth = Finite 1, fillStyle = ''#000000'',
                saved = [], ops = []\<rparr>"

definition initial :: state where
  "initial = state_of (redraw None
     \<lparr>elements = [], tool = T_rect,
      drawingRef = \<lparr>active = False, start = None, path = []\<rparr>,
      canvas = fresh_ctx\<rparr>)"

section \<open>Handlers (part\_001)\<close>

definition TOOLS_jsx :: "ToolId list" where
  "TOOLS_jsx = [T_rect, T_circle, T_line, T_draw]"

text \<open>\<open>drawElement_jsx\<close> raises nothing, so neither does this \<open>redraw\<close>. The
  \<^verbatim>\<open>console.log\<close> of the draft is not modelled.\<close>

definition redraw_jsx :: "CanvasElement option \<Rightarrow> state \<Rightarrow> state" where
  "redraw_jsx draft s =
     (let ctx = emit (ClearRect (Finite 0) (Finite 0) (Finite 800) (Finite 600)) (canvas s);
          ctx = fold (\<lambda>el c. drawElement_jsx c el) (elements s) ctx
      in case draft of
           None \<Rightarrow> s\<lparr>canvas := ctx\<rparr>
         | Some d \<Rightarrow> s\<lparr>canvas := drawElement_jsx ctx d\<rparr>)"

definition setElements_jsx :: "(CanvasElement list \<Rightarrow> CanvasElement list) \<Rightarrow> state \<Rightarrow> state" where
  "setElements_jsx f s = redraw_jsx None (s\<lparr>elements := f (elements s)\<rparr>)"

definition onMouseMove_jsx :: "MouseEvent \<Rightarrow> state \<Rightarrow> outcome" where
  "onMouseMove_jsx e s =
     (if \<not> active (drawingRef s) then Inr s
      else
        let pos = getPos e;
            d = drawingRef s;
            t = tool s
        in if t = T_draw then
             (let s1 = s\<lparr>drawingRef := d\<lparr>path := path d @ [pos]\<rparr>\<rparr>
              in Inr (redraw_jsx (Some (DrawEl (path (drawingRef s1)))) s1))
           else
             (case makeShapeElement t (start d) pos of
                Inl err \<Rightarrow> Inl (err, s)
              | Inr draft \<Rightarrow> Inr (redraw_jsx draft s)))"

definition onMouseUp_jsx :: "MouseEvent \<Rightarrow> state \<Rightarrow> outcome" where
  "onMouseUp_jsx e s =
     (if \<not> active (drawingRef s) then Inr s
      else
        let pos = getPos e;
            d = drawingRef s;
            t = tool s;
            s1 = s\<lparr>drawingRef := d\<lparr>active := False\<rparr>\<rparr>
        in if t = T_draw then
             (let s2 = s1\<lparr>drawingRef := (drawingRef s1)\<lparr>path := path d @ [pos]\<rparr>\<rparr>
              in Inr (setElements_jsx (\<lambda>prev. prev @ [DrawEl (path (drawingRef s2))]) s2))
           else
             (case makeShapeElement t (start d) pos of
                Inl err \<Rightarrow> Inl (err, s1)
              | Inr None \<Rightarrow> Inr s1
              | Inr (Some el) \<Rightarrow> Inr (setElements_jsx (\<lambda>prev. prev @ [el]) s1)))"

definition img_onload_jsx :: "HTMLImageElement \<Rightarrow> state \<Rightarrow> state" where
  "img_onload_jsx img s =
     (let w = Math_min (Finite (of_nat (width img))) (Finite 400);
          h = Math_round (js_mul (js_div (Finite (of_nat (height img)))
                                         (Finite (of_nat (width img)))) w)
      in setElements_jsx (\<lambda>prev. prev @ [ImageEl img (Finite 50) (Finite 50) w h]) s)"

definition clear_jsx :: "state \<Rightarrow> state" where
  "clear_jsx s = setElements_jsx (\<lambda>prev. []) s"

fun handle_jsx :: "event \<Rightarrow> state \<Rightarrow> outcome" where
  "handle_jsx (MouseDown e) s = Inr (onMouseDown e s)"
| "handle_jsx (MouseMove e) s = onMouseMove_jsx e s"
| "handle_jsx (MouseUp e) s = onMouseUp_jsx e s"
| "handle_jsx (MouseLeave e) s = onMouseUp_jsx e s"
| "handle_jsx (ToolButton i) s =
     (if i < length TOOLS_jsx then Inr (setTool (TOOLS_jsx ! i) s) else Inr s)"
| "handle_jsx ClearButton s = Inr (clear_jsx s)"
| "handle_jsx (ImageLoaded img) s = Inr (img_onload_jsx img s)"

fun run_jsx :: "event list \<Rightarrow> state \<Rightarrow> state" where
  "run_jsx [] s = s"
| "run_jsx (ev # evs) s = run_jsx evs (state_of (handle_jsx ev s))"

definition initial_jsx :: state where
  "initial_jsx = redraw_jsx None
     \<lparr>elements = [], tool = T_rect,
      drawingRef = \<lparr>active = False, start = None, path = []\<rparr>,
      canvas = fresh_ctx\<rparr>"

section \<open>An invariant of the drag state\<close>

text \<open>While a drag is active the accumulated path is not empty, and every freehand
  element of the document has at least two points.\<close>

definition path_inv :: "state \<Rightarrow> bool" where
  "path_inv s \<longleftrightarrow>
     (active (drawingRef s) \<longrightarrow> path (drawingRef s) \<noteq> []) \<and>
     (\<forall>ps. DrawEl ps \<in> set (elements s) \<longrightarrow> 2 \<le> length ps)"

text \<open>The per-call configuration of a context: the three style attributes and the stack
  of saved states.\<close>

definition config :: "ctx2d \<Rightarrow> string \<times> number \<times> string \<times> (string \<times> number \<times> string) list" where
  "config ctx = (strokeStyle ctx, lineWidth ctx, fillStyle ctx, saved ctx)"

section \<open>The range of the rounding bounds\<close>

text \<open>The magnitudes on which one rounding, and a halving after it, stay clear of the
  subnormal numbers and of overflow.\<close>

definition in_range :: "rat \<Rightarrow> bool" where
  "in_range v \<longleftrightarrow> 2 powi (- 1020) \<le> \<bar>v\<bar> \<and> \<bar>v\<bar> < 2 powi 1023"

section \<open>Facts about the numbers\<close>

lemma js_neg_js_neg [simp]: "js_neg (js_neg v) = v"
  by (cases v) simp_all

lemma Math_abs_js_neg [simp]: "Math_abs (js_neg v) = Math_abs v"
  by (cases v) simp_all

lemma round_double_minus: "x \<noteq> 0 \<Longrightarrow> round_double (- x) = js_neg (round_double x)"
  by (simp add: round_double_def)

lemma Math_abs_round_double_minus: "Math_abs (round_double (- x)) = Math_abs (round_double x)"
  by (cases "x = 0") (simp_all add: round_double_minus)

lemma js_neg_simps [simp]:
  "js_neg v = NaN \<longleftrightarrow> v = NaN"
  "is_inf (js_neg v) = is_inf v"
  "the_rat (js_neg v) = - the_rat v"
  by (cases v; simp)+

text \<open>Addition and \<^verbatim>\<open>Math.min\<close> do not depend on the order of their arguments, and neither
  does the absolute value of a difference.\<close>

lemma js_add_commute: "js_add x y = js_add y x"
  by (cases x; cases y) (simp_all add: js_add_def add.commute)

lemma Math_min_commute: "Math_min x y = Math_min y x"
  by (cases x; cases y) (auto simp: Math_min_def num_le_def)

lemma Math_min_self [simp]: "Math_min v v = v"
  by (cases v) (simp_all add: Math_min_def num_le_def)

lemma Math_min_Finite: "Math_min (Finite a) (Finite b) = Finite (min a b)"
  by (auto simp: Math_min_def num_le_def min_def)

lemma Math_min_width: "Math_min (Finite (of_nat W)) (Finite 400) = Finite (of_nat (min W 400))"
  by (simp add: Math_min_Finite min_def)

lemma js_sub_Finite: "js_sub (Finite a) (Finite b) = round_double (a - b)"
  by (simp add: js_sub_def js_add_def)

lemma js_sub_self: "is_finite v \<Longrightarrow> js_sub v v = Finite 0"
  by (cases v) (simp_all add: js_sub_def js_add_def round_double_def)

lemma Math_abs_js_sub_sym: "Math_abs (js_sub a b) = Math_abs (js_sub b a)"
proof (cases "is_finite a \<and> is_finite b")
  case True
  have d: "the_rat b - the_rat a = - (the_rat a - the_rat b)" by simp
  from True show ?thesis
    by (cases a; cases b)
       (simp_all add: js_sub_def js_add_def d Math_abs_round_double_minus del: minus_diff_eq,
        simp_all add: round_double_def)
next
  case False
  then show ?thesis
    by (cases a; cases b) (simp_all add: js_sub_def js_add_def)
qed

text \<open>The exponent is the right one, so the rounding error is at most half the spacing of
  the doubles: a relative error of at most \<open>2 ^ - 53\<close> away from the subnormal numbers and
  from overflow.\<close>

lemma powi_pos: "0 < (2::rat) powi k"
  by (simp add: power_int_def)

lemma bitlen_bounds_rat:
  assumes "0 < p"
  shows "(2::rat) powi (bitlen p - 1) \<le> of_int p" "of_int p < (2::rat) powi bitlen p"
proof -
  from assms have b1: "1 \<le> bitlen p" by (auto simp: bitlen_alt_def)
  from bitlen_bounds[OF assms] have l: "2 ^ nat (bitlen p - 1) \<le> p" and u: "p < 2 ^ nat (bitlen p)"
    by auto
  have "(of_int (2 ^ nat (bitlen p - 1)) :: rat) \<le> of_int p" using l by (simp only: of_int_le_iff)
  then show "(2::rat) powi (bitlen p - 1) \<le> of_int p"
    using b1 by (simp add: power_int_def)
  have "(of_int p :: rat) < of_int (2 ^ nat (bitlen p))" using u by (simp only: of_int_less_iff)
  then show "of_int p < (2::rat) powi bitlen p"
    using b1 by (simp add: power_int_def)
qed

lemma binade_bounds:
  assumes "x \<noteq> 0"
  shows "2 powi binade x \<le> \<bar>x\<bar> \<and> \<bar>x\<bar> < 2 powi (binade x + 1)"
proof -
  obtain p q where pq: "quotient_of \<bar>x\<bar> = (p, q)" by (cases "quotient_of \<bar>x\<bar>")
  then have q: "0 < q" by (rule quotient_of_denom_pos)
  from pq have x: "\<bar>x\<bar> = of_int p / of_int q" by (rule quotient_of_div)
  from assms have "0 < \<bar>x\<bar>" by simp
  with x q have p: "0 < p" by (simp add: zero_less_divide_iff)
  let ?d = "bitlen p - bitlen q"
  note P = bitlen_bounds_rat[OF p] and Q = bitlen_bounds_rat[OF q]
  have qpos: "(0::rat) < of_int q" using q by simp
  have up: "\<bar>x\<bar> < 2 powi (?d + 1)"
  proof -
    have "of_int p < (2::rat) powi bitlen p" by (rule P)
    also have "\<dots> = 2 powi (?d + 1) * 2 powi (bitlen q - 1)"
      by (simp add: power_int_add [symmetric])
    also have "\<dots> \<le> 2 powi (?d + 1) * of_int q"
      using Q(1) by (simp add: powi_pos)
    finally show ?thesis using qpos by (simp add: x pos_divide_less_eq)
  qed
  have lo: "2 powi (?d - 1) < \<bar>x\<bar>"
  proof -
    have "2 powi (?d - 1) * of_int q < (2::rat) powi (?d - 1) * 2 powi bitlen q"
      using Q(2) by (simp add: powi_pos)
    also have "\<dots> = 2 powi (bitlen p - 1)"
      by (simp add: power_int_add [symmetric])
    also have "\<dots> \<le> of_int p" by (rule P)
    finally show ?thesis using qpos by (simp add: x pos_less_divide_eq)
  qed
  show ?thesis
  proof (cases "2 powi ?d \<le> \<bar>x\<bar>")
    case True
    then have "binade x = ?d" by (simp add: binade_def pq)
    with True up show ?thesis by simp
  next
    case False
    then have "binade x = ?d - 1" by (simp add: binade_def pq)
    with False lo show ?thesis by simp
  qed
qed

lemma round_half_even_error: "\<bar>of_int (round_half_even v) - v\<bar> \<le> 1 / 2"
proof -
  have "of_int \<lfloor>v\<rfloor> \<le> v" "v < of_int \<lfloor>v\<rfloor> + 1" by linarith+
  then show ?thesis
    by (auto simp: round_half_even_def Let_def)
qed

lemma powi_less_cancel: "(2::rat) powi a < 2 powi b \<Longrightarrow> a < b"
  by (metis linorder_not_less one_less_numeral_iff power_int_increasing semiring_norm(76) less_imp_le)

lemma powi_le_cancel: "(2::rat) powi a \<le> 2 powi b \<Longrightarrow> a \<le> b"
  by (metis linorder_not_less one_less_numeral_iff power_int_strict_increasing semiring_norm(76))

lemma round_mag_error:
  assumes lo: "2 powi (- 1022) \<le> x" and hi: "x < 2 powi 1023"
  shows "\<exists>r. round_mag x = Finite r \<and> \<bar>r - x\<bar> \<le> x / 2 ^ 53"
proof -
  have xpos: "0 < x" using lo powi_pos[of "- 1022"] by linarith
  then have x0: "x \<noteq> 0" and ax: "\<bar>x\<bar> = x" by simp_all
  let ?e = "binade x"
  from binade_bounds[OF x0] ax have b: "2 powi ?e \<le> x" "x < 2 powi (?e + 1)" by simp_all
  have "(2::rat) powi (- 1022) < 2 powi (?e + 1)" using lo b(2) by linarith
  then have e1: "- 1022 \<le> ?e" using powi_less_cancel by fastforce
  have "(2::rat) powi ?e < 2 powi 1023" using hi b(1) by linarith
  then have e2: "?e < 1023" by (rule powi_less_cancel)
  let ?q = "?e - 52"
  let ?m = "round_half_even (x / 2 powi ?q)"
  have q: "max (?e - 52) (- 1074) = ?q" using e1 by simp
  have rm: "round_mag x = Finite (of_int ?m * 2 powi ?q)"
    using e2 by (simp add: round_mag_def q Let_def)
  have "\<bar>of_int ?m - x / 2 powi ?q\<bar> \<le> 1 / 2" by (rule round_half_even_error)
  then have "\<bar>of_int ?m - x / 2 powi ?q\<bar> * 2 powi ?q \<le> 1 / 2 * 2 powi ?q"
    by (rule mult_right_mono) (simp add: less_imp_le powi_pos)
  moreover have "\<bar>of_int ?m - x / 2 powi ?q\<bar> * 2 powi ?q = \<bar>of_int ?m * 2 powi ?q - x\<bar>"
  proof -
    have "\<bar>of_int ?m - x / 2 powi ?q\<bar> * 2 powi ?q = \<bar>(of_int ?m - x / 2 powi ?q) * 2 powi ?q\<bar>"
      using powi_pos[of ?q] by (simp add: abs_mult)
    also have "(of_int ?m - x / 2 powi ?q) * 2 powi ?q = of_int ?m * 2 powi ?q - x"
      using powi_pos[of ?q] by (simp add: field_simps)
    finally show ?thesis .
  qed
  moreover have "1 / 2 * (2::rat) powi ?q = 2 powi ?e / 2 ^ 53"
  proof -
    have "(2::rat) powi ?e = 2 powi (?q + 52)" by simp
    also have "\<dots> = 2 powi ?q * 2 powi 52" by (rule power_int_add) simp
    finally have "(2::rat) powi ?e = 2 powi ?q * 2 ^ 52" by simp
    then show ?thesis by simp
  qed
  moreover have "(2::rat) powi ?e / 2 ^ 53 \<le> x / 2 ^ 53"
    using b(1) by (simp add: divide_right_mono)
  ultimately have "\<bar>of_int ?m * 2 powi ?q - x\<bar> \<le> x / 2 ^ 53" by linarith
  with rm show ?thesis by blast
qed

lemma round_double_error:
  assumes "2 powi (- 1022) \<le> \<bar>x\<bar>" "\<bar>x\<bar> < 2 powi 1023"
  shows "\<exists>r. round_double x = Finite r \<and> \<bar>r - x\<bar> \<le> \<bar>x\<bar> / 2 ^ 53"
proof (cases "x < 0")
  case False
  have "x \<noteq> 0" using assms(1) powi_pos[of "- 1022"] by auto
  with False have x: "0 < x" "\<bar>x\<bar> = x" by simp_all
  from round_mag_error[of x] assms x obtain r where "round_mag x = Finite r" "\<bar>r - x\<bar> \<le> x / 2 ^ 53"
    by auto
  then show ?thesis using x by (auto simp: round_double_def)
next
  case True
  then have x: "\<bar>x\<bar> = - x" by simp
  from round_mag_error[of "- x"] assms x obtain r
    where r: "round_mag (- x) = Finite r" "\<bar>r - (- x)\<bar> \<le> (- x) / 2 ^ 53"
    by auto
  have "\<bar>- r - x\<bar> = \<bar>r - (- x)\<bar>" by simp
  show ?thesis
  proof (cases "r = 0")
    case True
    with r(2) have "\<bar>x\<bar> \<le> \<bar>x\<bar> / 2 ^ 53" using x by simp
    moreover have "0 < \<bar>x\<bar>" using \<open>x < 0\<close> by simp
    ultimately have False by (simp add: field_simps)
    then show ?thesis ..
  next
    case False
    with r True have "round_double x = Finite (- r)" by (simp add: round_double_def)
    moreover have "\<bar>- r - x\<bar> \<le> \<bar>x\<bar> / 2 ^ 53" using r(2) x by simp
    ultimately show ?thesis by blast
  qed
qed

text \<open>An integer of magnitude below \<open>2 ^ 53\<close> is a double: rounding leaves it as it is.\<close>

lemma round_half_even_of_int [simp]: "round_half_even (of_int k) = k"
  by (simp add: round_half_even_def)

lemma round_mag_of_int:
  assumes "0 < n" "n < 2 ^ 53"
  shows "round_mag (of_int n) = Finite (of_int n)"
proof -
  let ?x = "of_int n :: rat"
  have x0: "?x \<noteq> 0" and ax: "\<bar>?x\<bar> = ?x" using assms by simp_all
  let ?e = "binade ?x"
  from binade_bounds[OF x0] ax have b: "2 powi ?e \<le> ?x" "?x < 2 powi (?e + 1)" by simp_all
  have "(1::rat) \<le> ?x" using assms by simp
  then have "(2::rat) powi 0 < 2 powi (?e + 1)" using b(2) by simp
  then have e0: "0 \<le> ?e" using powi_less_cancel by fastforce
  have "?x < 2 ^ 53" using assms(2) by (metis of_int_less_iff of_int_numeral of_int_power)
  then have "(2::rat) powi ?e < 2 powi 53" using b(1) by simp
  then have e53: "?e < 53" by (rule powi_less_cancel)
  let ?k = "nat (52 - ?e)"
  have q: "max (?e - 52) (- 1074) = ?e - 52" using e0 by simp
  have inv: "?x / 2 powi (?e - 52) = of_int (n * 2 ^ ?k)"
  proof -
    have "(2::rat) powi (?e - 52) * 2 powi (52 - ?e) = 1"
      by (simp add: power_int_add [symmetric])
    then have i: "1 / (2::rat) powi (?e - 52) = 2 powi (52 - ?e)"
      using powi_pos[of "?e - 52"] by (simp add: field_simps)
    have p: "(2::rat) powi (52 - ?e) = 2 ^ ?k" using e53 by (simp add: power_int_def)
    have "?x / 2 powi (?e - 52) = ?x * (1 / 2 powi (?e - 52))" by simp
    also have "\<dots> = ?x * 2 ^ ?k" by (simp only: i p)
    also have "\<dots> = of_int (n * 2 ^ ?k)" by simp
    finally show ?thesis .
  qed
  have bk: "(of_int (n * 2 ^ ?k) :: rat) * 2 powi (?e - 52) = ?x"
    using inv powi_pos[of "?e - 52"] by (simp add: field_simps)
  show ?thesis
    using e53 by (simp add: round_mag_def q Let_def inv bk del: of_int_mult of_int_power)
qed

lemma round_double_of_int:
  assumes "\<bar>n\<bar> < 2 ^ 53"
  shows "round_double (of_int n) = Finite (of_int n)"
proof -
  consider "n = 0" | "0 < n" | "n < 0" by linarith
  then show ?thesis
  proof cases
    case 1 then show ?thesis by (simp add: round_double_def)
  next
    case 2 with assms show ?thesis by (simp add: round_double_def round_mag_of_int)
  next
    case 3
    with assms have "0 < - n" "- n < 2 ^ 53" by simp_all
    from round_mag_of_int[OF this] 3 show ?thesis by (simp add: round_double_def)
  qed
qed

lemma round_double_numeral:
  "numeral k < (2::int) ^ 53 \<Longrightarrow> round_double (numeral k) = Finite (numeral k)"
  using round_double_of_int[of "numeral k"] by simp

lemma round_double_one: "round_double 1 = Finite 1"
  using round_double_of_int[of 1] by simp

lemma js_sub_numeral_zero:
  "numeral k < (2::int) ^ 53 \<Longrightarrow> js_sub (Finite (numeral k)) (Finite 0) = Finite (numeral k)"
  by (simp add: js_sub_Finite round_double_numeral)

lemma in_range_normal: "in_range v \<Longrightarrow> 2 powi (- 1022) \<le> \<bar>v\<bar> \<and> \<bar>v\<bar> < 2 powi 1023"
proof -
  assume a: "in_range v"
  have "(2::rat) powi (- 1022) \<le> 2 powi (- 1020)" by (rule power_int_increasing) simp_all
  with a show ?thesis by (simp add: in_range_def)
qed

lemma in_range_ordinary: "1 \<le> \<bar>v\<bar> \<Longrightarrow> \<bar>v\<bar> < 2 ^ 64 \<Longrightarrow> in_range v"
proof -
  assume a: "1 \<le> \<bar>v\<bar>" and b: "\<bar>v\<bar> < 2 ^ 64"
  have "(2::rat) powi (- 1020) \<le> 2 powi 0" by (rule power_int_increasing) simp_all
  moreover have "(2::rat) powi 64 \<le> 2 powi 1023" by (rule power_int_increasing) simp_all
  ultimately show ?thesis using a b by (simp add: in_range_def)
qed

lemma normal_ordinary:
  assumes "1 / 2 ^ 40 \<le> \<bar>v::rat\<bar>" "\<bar>v\<bar> < 2 ^ 64"
  shows "2 powi (- 1022) \<le> \<bar>v\<bar>" "\<bar>v\<bar> < 2 powi 1023"
proof -
  have "(2::rat) powi (- 1022) \<le> 2 powi (- 40)" by (rule power_int_increasing) simp_all
  moreover have "(2::rat) powi (- 40) = 1 / 2 ^ 40" by (simp add: power_int_minus field_simps)
  ultimately show "2 powi (- 1022) \<le> \<bar>v\<bar>" using assms(1) by simp
  have "(2::rat) powi 64 \<le> 2 powi 1023" by (rule power_int_increasing) simp_all
  then show "\<bar>v\<bar> < 2 powi 1023" using assms(2) by simp
qed

text \<open>The absolute difference of two doubles, and the half of a sum or of an absolute
  difference, with their error bounds.\<close>

lemma abs_sub_error:
  assumes "in_range (b - a)"
  shows "\<exists>w. Math_abs (js_sub (Finite b) (Finite a)) = Finite w \<and>
             \<bar>w - \<bar>b - a\<bar>\<bar> \<le> \<bar>b - a\<bar> / 2 ^ 53"
proof -
  from in_range_normal[OF assms] round_double_error[of "b - a"]
  obtain r where r: "round_double (b - a) = Finite r" "\<bar>r - (b - a)\<bar> \<le> \<bar>b - a\<bar> / 2 ^ 53"
    by auto
  have "\<bar>\<bar>r\<bar> - \<bar>b - a\<bar>\<bar> \<le> \<bar>r - (b - a)\<bar>" by (rule abs_triangle_ineq3)
  with r show ?thesis by (auto simp: js_sub_Finite)
qed

lemma abs_sub_int:
  assumes "\<bar>n - k\<bar> < 2 ^ 53"
  shows "Math_abs (js_sub (Finite (of_int n)) (Finite (of_int k))) = Finite (of_int \<bar>n - k\<bar>)"
proof -
  have "round_double (of_int n - of_int k) = Finite (of_int (n - k))"
    using round_double_of_int[OF assms] by simp
  then show ?thesis by (simp add: js_sub_Finite)
qed

lemma half_core:
  assumes t: "in_range t" and r: "\<bar>r - t\<bar> \<le> \<bar>t\<bar> / 2 ^ 53"
  shows "\<exists>c. js_div (Finite r) (Finite 2) = Finite c \<and> \<bar>c - t / 2\<bar> \<le> \<bar>t\<bar> / 2 ^ 52"
proof -
  from t have lo: "2 powi (- 1020) \<le> \<bar>t\<bar>" and hi: "\<bar>t\<bar> < 2 powi 1023"
    by (simp_all add: in_range_def)
  have p4: "(2::rat) powi (- 1020) = 4 * 2 powi (- 1022)"
    using power_int_add[of "2::rat" 2 "- 1022"] by simp
  have tpos: "0 < \<bar>t\<bar>" using lo powi_pos[of "- 1020"] by linarith
  have small: "\<bar>t\<bar> / 2 ^ 53 \<le> \<bar>t\<bar> / 2" using tpos by (simp add: field_simps)
  have r1: "\<bar>t\<bar> / 2 \<le> \<bar>r\<bar>" using r small by linarith
  have r2: "\<bar>r\<bar> \<le> 2 * \<bar>t\<bar>" using r small by linarith
  have rne: "r \<noteq> 0" using r1 tpos by auto
  have d: "js_div (Finite r) (Finite 2) = round_double (r / 2)"
    using rne by (simp add: js_div_def)
  have "2 powi (- 1022) \<le> \<bar>r / 2\<bar>" using r1 lo p4 by simp
  moreover have "\<bar>r / 2\<bar> < 2 powi 1023" using r2 hi by simp
  ultimately obtain c where c: "round_double (r / 2) = Finite c"
      "\<bar>c - r / 2\<bar> \<le> \<bar>r / 2\<bar> / 2 ^ 53"
    using round_double_error[of "r / 2"] by auto
  have "\<bar>(c - r / 2) + (r - t) / 2\<bar> \<le> \<bar>c - r / 2\<bar> + \<bar>(r - t) / 2\<bar>"
    by (rule abs_triangle_ineq)
  moreover have "(c - r / 2) + (r - t) / 2 = c - t / 2" by (simp add: field_simps)
  moreover have "\<bar>(r - t) / 2\<bar> = \<bar>r - t\<bar> / 2" by simp
  ultimately have "\<bar>c - t / 2\<bar> \<le> \<bar>c - r / 2\<bar> + \<bar>r - t\<bar> / 2" by simp
  also have "\<dots> \<le> \<bar>r / 2\<bar> / 2 ^ 53 + (\<bar>t\<bar> / 2 ^ 53) / 2"
  proof (rule add_mono [OF c(2)])
    show "\<bar>r - t\<bar> / 2 \<le> \<bar>t\<bar> / 2 ^ 53 / 2" using r by (simp add: divide_right_mono)
  qed
  also have "\<dots> \<le> \<bar>t\<bar> / 2 ^ 53 + (\<bar>t\<bar> / 2 ^ 53) / 2"
    using r2 by (simp add: field_simps)
  also have "\<dots> \<le> \<bar>t\<bar> / 2 ^ 52" using tpos by (simp add: field_simps)
  finally show ?thesis using d c(1) by auto
qed

lemma centre_error:
  assumes "in_range (a + b)"
  shows "\<exists>c. js_div (js_add (Finite a) (Finite b)) (Finite 2) = Finite c \<and>
             \<bar>c - (a + b) / 2\<bar> \<le> \<bar>a + b\<bar> / 2 ^ 52"
proof -
  from in_range_normal[OF assms] round_double_error[of "a + b"]
  obtain r where r: "round_double (a + b) = Finite r" "\<bar>r - (a + b)\<bar> \<le> \<bar>a + b\<bar> / 2 ^ 53"
    by auto
  from half_core[OF assms r(2)] r(1) show ?thesis by (simp add: js_add_def)
qed

lemma radius_error:
  assumes "in_range (b - a)"
  shows "\<exists>c. js_div (Math_abs (js_sub (Finite b) (Finite a))) (Finite 2) = Finite c \<and>
             \<bar>c - \<bar>b - a\<bar> / 2\<bar> \<le> \<bar>b - a\<bar> / 2 ^ 52"
proof -
  from abs_sub_error[OF assms]
  obtain w where w: "Math_abs (js_sub (Finite b) (Finite a)) = Finite w"
      "\<bar>w - \<bar>b - a\<bar>\<bar> \<le> \<bar>b - a\<bar> / 2 ^ 53"
    by auto
  have ir: "in_range \<bar>b - a\<bar>" using assms by (simp add: in_range_def)
  from half_core[OF ir, of w] w show ?thesis by simp
qed

lemma circle_scenario:
  "js_div (js_add (Finite 0) (Finite 20)) (Finite 2) = Finite 10"
  "js_div (js_add (Finite 0) (Finite 10)) (Finite 2) = Finite 5"
  "js_div (Math_abs (js_sub (Finite 20) (Finite 0))) (Finite 2) = Finite 10"
  "js_div (Math_abs (js_sub (Finite 10) (Finite 0))) (Finite 2) = Finite 5"
  by (simp_all add: js_add_def js_sub_Finite js_div_def round_double_numeral)

text \<open>The height of an uploaded image: the quotient and the product are each rounded, then
  \<^verbatim>\<open>Math.round\<close> takes the nearest integer. For sizes below \<open>2 ^ 32\<close> the result is within
  \<open>1 / 2 + 2 ^ - 19\<close> of the exact scaled height.\<close>

lemma image_height_error:
  assumes W: "0 < W" "W < 2 ^ 32" and H: "H < 2 ^ 32"
  shows "\<exists>h. Math_round (js_mul (js_div (Finite (of_nat H)) (Finite (of_nat W)))
                                 (Finite (of_nat (min W 400)))) = Finite (of_int h)
            \<and> \<bar>of_int h - of_nat H / of_nat W * of_nat (min W 400)\<bar> \<le> (1 / 2 + 1 / 2 ^ 19 :: rat)"
proof (cases "H = 0")
  case True
  with W show ?thesis
    by (intro exI[of _ 0]) (simp add: js_div_def js_mul_def floor_eq_iff)
next
  case False
  define q :: rat where "q = of_nat H / of_nat W"
  define w :: rat where "w = of_nat (min W 400)"
  have Wr: "(1::rat) \<le> of_nat W" "(of_nat W :: rat) < 2 ^ 32"
    using W by (simp_all add: of_nat_less_numeral_power_cancel_iff)
  have Hr: "(1::rat) \<le> of_nat H" "(of_nat H :: rat) < 2 ^ 32"
    using False H by (simp_all add: of_nat_less_numeral_power_cancel_iff Suc_le_eq)
  have w1: "1 \<le> w" "w \<le> 400" "w \<le> of_nat W"
    using W by (simp_all add: w_def Suc_le_eq)
  have qlo: "1 / 2 ^ 32 \<le> q"
  proof -
    have "1 / 2 ^ 32 \<le> 1 / (of_nat W :: rat)" using Wr by (simp add: field_simps)
    also have "\<dots> \<le> q" using Hr Wr by (simp add: q_def divide_right_mono)
    finally show ?thesis .
  qed
  have qhi: "q \<le> of_nat H"
    using Hr Wr by (simp add: q_def field_simps mult_le_cancel_left1)
  have qpos: "0 < q" using qlo by (simp add: less_le_trans [OF _ qlo])
  have qw: "q * w \<le> of_nat H"
  proof -
    have "q * w \<le> q * of_nat W" using w1 qpos by (simp add: mult_left_mono)
    also have "\<dots> = of_nat H" using Wr by (simp add: q_def)
    finally show ?thesis .
  qed
  have qw32: "q * w < 2 ^ 32" using qw Hr by linarith
  have "\<bar>q\<bar> < 2 ^ 64" "1 / 2 ^ 40 \<le> \<bar>q\<bar>" using qhi Hr qlo qpos by simp_all
  from normal_ordinary[OF this(2) this(1)] round_double_error[of q]
  obtain q1 where q1: "round_double q = Finite q1" "\<bar>q1 - q\<bar> \<le> \<bar>q\<bar> / 2 ^ 53" by auto
  have q1e: "\<bar>q1 - q\<bar> \<le> q / 2 ^ 53" using q1(2) qpos by simp
  have qs: "q / 2 ^ 53 \<le> q / 2" using qpos by (simp add: field_simps)
  have q1lo: "q / 2 \<le> q1" and q1hi: "q1 \<le> 2 * q" using q1e qs by linarith+
  have q1pos: "0 < q1" using q1lo qpos by linarith
  have dv: "js_div (Finite (of_nat H)) (Finite (of_nat W)) = Finite q1"
    using Hr Wr q1(1) by (simp add: js_div_def q_def)
  define t where "t = q1 * w"
  have tlo: "q / 2 \<le> t"
  proof -
    have "q1 * 1 \<le> q1 * w" using w1 q1pos by (intro mult_left_mono) simp_all
    with q1lo show ?thesis by (simp add: t_def)
  qed
  have tpos: "0 < t" using tlo qpos by linarith
  have tqw: "\<bar>t - q * w\<bar> \<le> q * w / 2 ^ 53"
  proof -
    have "t - q * w = (q1 - q) * w" by (simp add: t_def algebra_simps)
    then have "\<bar>t - q * w\<bar> = \<bar>q1 - q\<bar> * w" using w1 by (simp add: abs_mult)
    also have "\<dots> \<le> (q / 2 ^ 53) * w" using q1e w1 by (intro mult_right_mono) simp_all
    finally show ?thesis by simp
  qed
  have qwpos: "0 < q * w" using qpos w1 by simp
  have qws: "q * w / 2 ^ 53 \<le> q * w" using qwpos by (simp add: field_simps)
  have thi: "t \<le> 2 * (q * w)" using tqw qws by linarith
  have "\<bar>t\<bar> < 2 ^ 64" using thi qw32 tpos by simp
  moreover have "1 / 2 ^ 40 \<le> \<bar>t\<bar>" using tlo qlo tpos by simp
  ultimately obtain t1 where t1: "round_double t = Finite t1" "\<bar>t1 - t\<bar> \<le> \<bar>t\<bar> / 2 ^ 53"
    using normal_ordinary[of t] round_double_error[of t] by auto
  have t1e: "\<bar>t1 - t\<bar> \<le> t / 2 ^ 53" using t1(2) tpos by simp
  have ts: "t / 2 ^ 53 \<le> t / 2" using tpos by (simp add: field_simps)
  have t1pos: "0 < t1" using t1e ts tpos by linarith
  have wne: "min W 400 \<noteq> 0" using W by simp
  have ml: "js_mul (Finite q1) (Finite (of_nat (min W 400))) = Finite t1"
    using q1pos wne t1(1) by (auto simp: js_mul_def t_def w_def)
  define h where "h = \<lfloor>t1 + 1 / 2\<rfloor>"
  have rd: "Math_round (Finite t1) = Finite (of_int h)" using t1pos by (simp add: h_def)
  have hb: "\<bar>of_int h - t1\<bar> \<le> 1 / 2"
  proof -
    have "of_int h \<le> t1 + 1 / 2" "t1 + 1 / 2 < of_int h + 1" unfolding h_def by linarith+
    then show ?thesis by linarith
  qed
  have e1: "t / 2 ^ 53 \<le> 2 * (q * w) / 2 ^ 53" using thi by (simp add: divide_right_mono)
  have e2: "q * w / 2 ^ 53 \<le> 2 ^ 32 / (2 ^ 53 :: rat)" using qw32 by (simp add: divide_right_mono)
  have "\<bar>t1 - q * w\<bar> \<le> \<bar>t1 - t\<bar> + \<bar>t - q * w\<bar>" by linarith
  also have "\<dots> \<le> 3 * (q * w / 2 ^ 53)" using t1e tqw e1 by linarith
  also have "\<dots> \<le> 3 * (2 ^ 32 / 2 ^ 53)" using e2 by linarith
  also have "\<dots> \<le> 1 / 2 ^ 19" by simp
  finally have "\<bar>t1 - q * w\<bar> \<le> 1 / 2 ^ 19" .
  with hb have "\<bar>of_int h - q * w\<bar> \<le> 1 / 2 + 1 / 2 ^ 19" by linarith
  with dv ml rd show ?thesis unfolding q_def w_def by auto
qed

section \<open>Basic facts\<close>

lemma TOOL_MAP_simps:
  "TOOL_MAP T_rect = Some RectTool"
  "TOOL_MAP T_circle = Some CircleTool"
  "TOOL_MAP T_line = Some LineTool"
  "TOOL_MAP T_draw = Some FreehandTool"
  "TOOL_MAP T_image = None"
  by (simp_all add: TOOL_MAP_def TOOLS_def RectTool_def CircleTool_def LineTool_def
      FreehandTool_def)

text \<open>The tool found under an element's type is the tool of that type, so a tool's
  \<open>draw\<close> only ever receives its own variant.\<close>

lemma TOOL_MAP_el_type: "TOOL_MAP (el_type el) = Some t \<Longrightarrow> tool_id t = el_type el"
  by (cases el)
     (auto simp: TOOL_MAP_simps RectTool_def CircleTool_def LineTool_def FreehandTool_def)

text \<open>Redrawing touches the canvas only, whether it raises or not.\<close>

lemma redraw_frame:
  "elements (state_of (redraw d s)) = elements s"
  "tool (state_of (redraw d s)) = tool s"
  "drawingRef (state_of (redraw d s)) = drawingRef s"
  by (simp_all add: redraw_def split: sum.splits option.splits prod.splits)

lemma setElements_frame:
  "elements (state_of (setElements f s)) = f (elements s)"
  "tool (state_of (setElements f s)) = tool s"
  "drawingRef (state_of (setElements f s)) = drawingRef s"
  by (simp_all add: setElements_def redraw_frame)

lemma redraw_jsx_frame:
  "elements (redraw_jsx d s) = elements s"
  "tool (redraw_jsx d s) = tool s"
  "drawingRef (redraw_jsx d s) = drawingRef s"
  by (simp_all add: redraw_jsx_def Let_def split: option.splits)

lemma setElements_jsx_frame:
  "elements (setElements_jsx f s) = f (elements s)"
  "tool (setElements_jsx f s) = tool s"
  "drawingRef (setElements_jsx f s) = drawingRef s"
  by (simp_all add: setElements_jsx_def redraw_jsx_frame)

lemma run_append: "run (xs @ ys) s = run ys (run xs s)"
  by (induction xs arbitrary: s) simp_all

lemma run_jsx_append: "run_jsx (xs @ ys) s = run_jsx ys (run_jsx xs s)"
  by (induction xs arbitrary: s) simp_all

lemma initial_fields:
  "elements initial = []" "tool initial = T_rect"
  "drawingRef initial = \<lparr>active = False, start = None, path = []\<rparr>"
  "elements initial_jsx = []" "tool initial_jsx = T_rect"
  "drawingRef initial_jsx = \<lparr>active = False, start = None, path = []\<rparr>"
  by (simp_all add: initial_def initial_jsx_def redraw_frame redraw_jsx_frame)

section \<open>Drags with a shape tool\<close>

text \<open>With a tool other than the freehand tool, a move redraws and changes neither the
  document nor the tool nor the drag state.\<close>

lemma onMouseMove_shape:
  "tool s \<noteq> T_draw \<Longrightarrow>
   elements (state_of (onMouseMove e s)) = elements s \<and>
   tool (state_of (onMouseMove e s)) = tool s \<and>
   drawingRef (state_of (onMouseMove e s)) = drawingRef s"
  by (simp add: onMouseMove_def Let_def redraw_frame split: option.splits)

lemma onMouseMove_jsx_shape:
  "tool s \<noteq> T_draw \<Longrightarrow>
   elements (state_of (onMouseMove_jsx e s)) = elements s \<and>
   tool (state_of (onMouseMove_jsx e s)) = tool s \<and>
   drawingRef (state_of (onMouseMove_jsx e s)) = drawingRef s"
  by (simp add: onMouseMove_jsx_def Let_def redraw_jsx_frame split: sum.splits)

lemma moves_shape:
  "tool s \<noteq> T_draw \<Longrightarrow>
   elements (run (map MouseMove es) s) = elements s \<and>
   tool (run (map MouseMove es) s) = tool s \<and>
   drawingRef (run (map MouseMove es) s) = drawingRef s"
proof (induction es arbitrary: s)
  case Nil
  then show ?case by simp
next
  case (Cons e es)
  note step = onMouseMove_shape[OF Cons.prems, of e]
  then have "tool (state_of (onMouseMove e s)) \<noteq> T_draw" using Cons.prems by simp
  from Cons.IH[OF this] step show ?case by simp
qed

lemma moves_jsx_shape:
  "tool s \<noteq> T_draw \<Longrightarrow>
   elements (run_jsx (map MouseMove es) s) = elements s \<and>
   tool (run_jsx (map MouseMove es) s) = tool s \<and>
   drawingRef (run_jsx (map MouseMove es) s) = drawingRef s"
proof (induction es arbitrary: s)
  case Nil
  then show ?case by simp
next
  case (Cons e es)
  note step = onMouseMove_jsx_shape[OF Cons.prems, of e]
  then have "tool (state_of (onMouseMove_jsx e s)) \<noteq> T_draw" using Cons.prems by simp
  from Cons.IH[OF this] step show ?case by simp
qed

text \<open>What a release commits depends on the document, the tool and the drag state only.\<close>

lemma onMouseUp_elements:
  "elements (state_of (onMouseUp e s)) =
     (if \<not> active (drawingRef s) then elements s
      else if tool s = T_draw then
        elements s @ [DrawEl (path (drawingRef s) @ [getPos e])]
      else (case start (drawingRef s) of
              None \<Rightarrow> elements s
            | Some st \<Rightarrow>
                (case TOOL_MAP (tool s) of
                   None \<Rightarrow> elements s
                 | Some tool_obj \<Rightarrow>
                     (case makeElement tool_obj st (getPos e) of
                        None \<Rightarrow> elements s
                      | Some el \<Rightarrow> elements s @ [el]))))"
  by (simp add: onMouseUp_def Let_def setElements_frame split: option.splits)

lemma onMouseUp_jsx_elements:
  "elements (state_of (onMouseUp_jsx e s)) =
     (if \<not> active (drawingRef s) then elements s
      else if tool s = T_draw then
        elements s @ [DrawEl (path (drawingRef s) @ [getPos e])]
      else (case makeShapeElement (tool s) (start (drawingRef s)) (getPos e) of
              Inl err \<Rightarrow> elements s
            | Inr None \<Rightarrow> elements s
            | Inr (Some el) \<Rightarrow> elements s @ [el]))"
  by (simp add: onMouseUp_jsx_def Let_def setElements_jsx_frame split: option.splits sum.splits)

text \<open>So the moves of a drag with such a tool do not change what the release commits.\<close>

lemma shape_drag:
  assumes "tool s \<noteq> T_draw"
  shows "elements (run (MouseDown e1 # map MouseMove es @ [MouseUp e2]) s)
           = elements (run [MouseDown e1, MouseUp e2] s)"
    and "elements (run_jsx (MouseDown e1 # map MouseMove es @ [MouseUp e2]) s)
           = elements (run_jsx [MouseDown e1, MouseUp e2] s)"
proof -
  have t: "tool (onMouseDown e1 s) \<noteq> T_draw"
    using assms by (simp add: onMouseDown_def Let_def)
  show "elements (run (MouseDown e1 # map MouseMove es @ [MouseUp e2]) s)
           = elements (run [MouseDown e1, MouseUp e2] s)"
    using moves_shape[OF t, of es]
    by (simp add: run_append onMouseUp_elements split: option.splits)
  show "elements (run_jsx (MouseDown e1 # map MouseMove es @ [MouseUp e2]) s)
           = elements (run_jsx [MouseDown e1, MouseUp e2] s)"
    using moves_jsx_shape[OF t, of es]
    by (simp add: run_jsx_append onMouseUp_jsx_elements split: option.splits sum.splits)
qed

lemma rect_click:
  "tool s = T_rect \<Longrightarrow>
   elements (run [MouseDown e1, MouseUp e2] s) =
     elements s @ [RectEl (Math_min (px (getPos e1)) (px (getPos e2)))
                          (Math_min (py (getPos e1)) (py (getPos e2)))
                          (Math_abs (js_sub (px (getPos e2)) (px (getPos e1))))
                          (Math_abs (js_sub (py (getPos e2)) (py (getPos e1))))] \<and>
   elements (run_jsx [MouseDown e1, MouseUp e2] s) = elements (run [MouseDown e1, MouseUp e2] s)"
  by (simp add: onMouseDown_def onMouseUp_elements onMouseUp_jsx_elements Let_def TOOL_MAP_simps
      RectTool_def RectTool_makeElement_def makeShapeElement_def)

lemma circle_click:
  "tool s = T_circle \<Longrightarrow>
   elements (run [MouseDown e1, MouseUp e2] s) =
     elements s @ [CircleEl (js_div (js_add (px (getPos e1)) (px (getPos e2))) (Finite 2))
                            (js_div (js_add (py (getPos e1)) (py (getPos e2))) (Finite 2))
                            (js_div (Math_abs (js_sub (px (getPos e2)) (px (getPos e1)))) (Finite 2))
                            (js_div (Math_abs (js_sub (py (getPos e2)) (py (getPos e1)))) (Finite 2))] \<and>
   elements (run_jsx [MouseDown e1, MouseUp e2] s) = elements (run [MouseDown e1, MouseUp e2] s)"
  by (simp add: onMouseDown_def onMouseUp_elements onMouseUp_jsx_elements Let_def TOOL_MAP_simps
      CircleTool_def CircleTool_makeElement_def makeShapeElement_def)

section \<open>Building shapes from two points\<close>

text \<open>C1, as amended. From two points the rect tool builds, in both versions of the
  component, the rectangle whose corner has the smaller coordinates, exactly, and whose
  width and height are \<^verbatim>\<open>Math.abs\<close> of the double differences of the coordinates. For
  finite coordinates that is the absolute value of the exact difference rounded to the
  nearest double: within a relative error of \<open>2 ^ - 53\<close> of \<open>\<bar>p2.x - p1.x\<bar>\<close> where the
  difference is in range, and equal to it for integer coordinates whose difference is below
  \<open>2 ^ 53\<close>. From one point with finite coordinates taken twice it builds the rectangle of
  width and height zero at that point, and a press, any moves and a release at the position
  of the press, with the rect tool, append that rectangle to the document.\<close>

theorem rect_from_two_points:
  "makeElement RectTool p1 p2 =
     Some (RectEl (Math_min (px p1) (px p2)) (Math_min (py p1) (py p2))
                  (Math_abs (js_sub (px p2) (px p1))) (Math_abs (js_sub (py p2) (py p1))))
   \<and> makeShapeElement T_rect (Some p1) p2 = Inr (makeElement RectTool p1 p2)
   \<and> Math_min (Finite a) (Finite b) = Finite (min a b)
   \<and> Math_abs (js_sub (Finite b) (Finite a)) = Math_abs (round_double (b - a))
   \<and> (in_range (b - a) \<longrightarrow>
        (\<exists>w. Math_abs (js_sub (Finite b) (Finite a)) = Finite w \<and>
             \<bar>w - \<bar>b - a\<bar>\<bar> \<le> \<bar>b - a\<bar> / 2 ^ 53))
   \<and> (\<bar>n - k\<bar> < 2 ^ 53 \<longrightarrow>
        Math_abs (js_sub (Finite (of_int n)) (Finite (of_int k))) = Finite (of_int \<bar>n - k\<bar>))
   \<and> (is_finite (px p1) \<and> is_finite (py p1) \<longrightarrow>
        makeElement RectTool p1 p1 = Some (RectEl (px p1) (py p1) (Finite 0) (Finite 0)) \<and>
        makeShapeElement T_rect (Some p1) p1
          = Inr (Some (RectEl (px p1) (py p1) (Finite 0) (Finite 0))))
   \<and> (tool s = T_rect \<and> is_finite (px (getPos e)) \<and> is_finite (py (getPos e)) \<longrightarrow>
        elements (run (MouseDown e # map MouseMove es @ [MouseUp e]) s)
          = elements s @ [RectEl (px (getPos e)) (py (getPos e)) (Finite 0) (Finite 0)] \<and>
        elements (run_jsx (MouseDown e # map MouseMove es @ [MouseUp e]) s)
          = elements s @ [RectEl (px (getPos e)) (py (getPos e)) (Finite 0) (Finite 0)])"
proof -
  have drag: "tool s = T_rect \<and> is_finite (px (getPos e)) \<and> is_finite (py (getPos e)) \<longrightarrow>
        elements (run (MouseDown e # map MouseMove es @ [MouseUp e]) s)
          = elements s @ [RectEl (px (getPos e)) (py (getPos e)) (Finite 0) (Finite 0)] \<and>
        elements (run_jsx (MouseDown e # map MouseMove es @ [MouseUp e]) s)
          = elements s @ [RectEl (px (getPos e)) (py (getPos e)) (Finite 0) (Finite 0)]"
  proof
    assume h: "tool s = T_rect \<and> is_finite (px (getPos e)) \<and> is_finite (py (getPos e))"
    then have nd: "tool s \<noteq> T_draw" by simp
    from h rect_click[of s e e] shape_drag[OF nd, of e es e]
    show "elements (run (MouseDown e # map MouseMove es @ [MouseUp e]) s)
          = elements s @ [RectEl (px (getPos e)) (py (getPos e)) (Finite 0) (Finite 0)] \<and>
        elements (run_jsx (MouseDown e # map MouseMove es @ [MouseUp e]) s)
          = elements s @ [RectEl (px (getPos e)) (py (getPos e)) (Finite 0) (Finite 0)]"
      by (simp add: js_sub_self)
  qed
  show ?thesis
    using drag abs_sub_error[of b a] abs_sub_int[of n k]
    by (simp add: RectTool_def RectTool_makeElement_def makeShapeElement_def Math_min_Finite
        js_sub_Finite js_sub_self)
qed

text \<open>The differences of 100 and the double nearest to 0.1, and of 50 and 10; a click, with
  a move in between, at client position (7, 8) on a canvas whose corner is at (2, 3).\<close>

theorem rect_from_two_points_witness:
  "in_range (100 - 3602879701896397 / 36028797018963968)
   \<and> (\<exists>w. Math_abs (js_sub (Finite 100) (Finite (3602879701896397 / 36028797018963968))) = Finite w
         \<and> \<bar>w - \<bar>100 - 3602879701896397 / 36028797018963968\<bar>\<bar>
             \<le> \<bar>100 - 3602879701896397 / 36028797018963968\<bar> / 2 ^ 53)
   \<and> \<bar>50 - 10\<bar> < (2::int) ^ 53
   \<and> Math_abs (js_sub (Finite 50) (Finite 10)) = Finite 40
   \<and> tool initial = T_rect
   \<and> getPos \<lparr>clientX = Finite 7, clientY = Finite 8, rect_left = Finite 2, rect_top = Finite 3\<rparr>
       = \<lparr>px = Finite 5, py = Finite 5\<rparr>
   \<and> elements (run (MouseDown \<lparr>clientX = Finite 7, clientY = Finite 8,
                                 rect_left = Finite 2, rect_top = Finite 3\<rparr>
                      # map MouseMove [\<lparr>clientX = Finite 9, clientY = Finite 9,
                                        rect_left = Finite 2, rect_top = Finite 3\<rparr>]
                      @ [MouseUp \<lparr>clientX = Finite 7, clientY = Finite 8,
                                   rect_left = Finite 2, rect_top = Finite 3\<rparr>]) initial)
       = [RectEl (Finite 5) (Finite 5) (Finite 0) (Finite 0)]"
proof -
  let ?E = "\<lparr>clientX = Finite 7, clientY = Finite 8, rect_left = Finite 2, rect_top = Finite 3\<rparr>"
  let ?M = "[\<lparr>clientX = Finite 9, clientY = Finite 9, rect_left = Finite 2, rect_top = Finite 3\<rparr>]"
  have r: "in_range (100 - 3602879701896397 / 36028797018963968)"
    by (rule in_range_ordinary) simp_all
  have i: "\<bar>50 - 10\<bar> < (2::int) ^ 53" by simp
  have t: "tool initial = T_rect" by (simp add: initial_fields)
  have g: "getPos ?E = \<lparr>px = Finite 5, py = Finite 5\<rparr>"
    by (simp add: getPos_def js_sub_Finite round_double_numeral)
  have f: "is_finite (px (getPos ?E)) \<and> is_finite (py (getPos ?E))"
    by (simp add: g)
  note T = rect_from_two_points
      [of "\<lparr>px = Finite 5, py = Finite 5\<rparr>" "\<lparr>px = Finite 9, py = Finite 1\<rparr>"
          "3602879701896397 / 36028797018963968" 100 50 10 initial ?E ?M]
  from T r have c1: "\<exists>w. Math_abs (js_sub (Finite 100)
                            (Finite (3602879701896397 / 36028797018963968))) = Finite w
         \<and> \<bar>w - \<bar>100 - 3602879701896397 / 36028797018963968\<bar>\<bar>
             \<le> \<bar>100 - 3602879701896397 / 36028797018963968\<bar> / 2 ^ 53"
    by blast
  from T i have "Math_abs (js_sub (Finite (of_int 50)) (Finite (of_int 10)))
                   = Finite (of_int \<bar>50 - 10\<bar>)"
    by blast
  then have c2: "Math_abs (js_sub (Finite 50) (Finite 10)) = Finite 40" by simp
  from T t f have "elements (run (MouseDown ?E # map MouseMove ?M @ [MouseUp ?E]) initial)
          = elements initial @ [RectEl (px (getPos ?E)) (py (getPos ?E)) (Finite 0) (Finite 0)]"
    by blast
  then have c3: "elements (run (MouseDown ?E # map MouseMove ?M @ [MouseUp ?E]) initial)
          = [RectEl (Finite 5) (Finite 5) (Finite 0) (Finite 0)]"
    by (simp only: g initial_fields point.simps append_Nil)
  from r c1 i c2 t g c3 show ?thesis by blast
qed

text \<open>The width is not always the exact difference. On a canvas whose left edge is at
  \<open>500 / 60\<close> (the double nearest to it), a drag of the rect tool from client position
  (100, 50) to (300, 80) has its corners at the doubles nearest to \<open>91.666...\<close> and
  \<open>291.666...\<close>, whose difference is \<open>200 + 2 ^ - 46\<close>; the committed width is 200.\<close>

theorem rect_from_two_points_counterexample:
  "getPos \<lparr>clientX = Finite 100, clientY = Finite 50,
           rect_left = Finite (4691249611844267 / 562949953421312), rect_top = Finite 0\<rparr>
     = \<lparr>px = Finite (6450468216285867 / 70368744177664), py = Finite 50\<rparr>
   \<and> getPos \<lparr>clientX = Finite 300, clientY = Finite 80,
             rect_left = Finite (4691249611844267 / 562949953421312), rect_top = Finite 0\<rparr>
     = \<lparr>px = Finite (5131054262954667 / 17592186044416), py = Finite 80\<rparr>
   \<and> elements (run [MouseDown \<lparr>clientX = Finite 100, clientY = Finite 50,
                       rect_left = Finite (4691249611844267 / 562949953421312), rect_top = Finite 0\<rparr>,
                     MouseUp \<lparr>clientX = Finite 300, clientY = Finite 80,
                       rect_left = Finite (4691249611844267 / 562949953421312), rect_top = Finite 0\<rparr>]
                    initial)
       = [RectEl (Finite (6450468216285867 / 70368744177664)) (Finite 50) (Finite 200) (Finite 30)]
   \<and> Finite 200
       \<noteq> Finite \<bar>5131054262954667 / 17592186044416 - 6450468216285867 / 70368744177664\<bar>"
proof -
  have a: "js_sub (Finite 100) (Finite (4691249611844267 / 562949953421312))
             = Finite (6450468216285867 / 70368744177664)"
    by code_simp
  have b: "js_sub (Finite 300) (Finite (4691249611844267 / 562949953421312))
             = Finite (5131054262954667 / 17592186044416)"
    by code_simp
  have c: "Math_abs (js_sub (Finite (5131054262954667 / 17592186044416))
                            (Finite (6450468216285867 / 70368744177664))) = Finite 200"
    by code_simp
  have d: "Math_abs (js_sub (Finite 80) (Finite 50)) = Finite 30"
    using abs_sub_int[of 80 50] by simp
  have g1: "getPos \<lparr>clientX = Finite 100, clientY = Finite 50,
           rect_left = Finite (4691249611844267 / 562949953421312), rect_top = Finite 0\<rparr>
     = \<lparr>px = Finite (6450468216285867 / 70368744177664), py = Finite 50\<rparr>"
    by (simp add: getPos_def a js_sub_numeral_zero)
  have g2: "getPos \<lparr>clientX = Finite 300, clientY = Finite 80,
             rect_left = Finite (4691249611844267 / 562949953421312), rect_top = Finite 0\<rparr>
     = \<lparr>px = Finite (5131054262954667 / 17592186044416), py = Finite 80\<rparr>"
    by (simp add: getPos_def b js_sub_numeral_zero)
  show ?thesis
    using rect_click[of initial
        "\<lparr>clientX = Finite 100, clientY = Finite 50,
           rect_left = Finite (4691249611844267 / 562949953421312), rect_top = Finite 0\<rparr>"
        "\<lparr>clientX = Finite 300, clientY = Finite 80,
             rect_left = Finite (4691249611844267 / 562949953421312), rect_top = Finite 0\<rparr>"]
    by (simp add: initial_fields g1 g2 c d Math_min_Finite)
qed

text \<open>C2, as amended. From two points the circle tool builds, in both versions, the ellipse
  whose centre is the double sum of the coordinates halved and whose radii are
  \<^verbatim>\<open>Math.abs\<close> of the double differences halved. For finite coordinates in range the
  centre is within \<open>\<bar>p1.x + p2.x\<bar> / 2 ^ 52\<close> of the exact midpoint and a radius within
  \<open>\<bar>p2.x - p1.x\<bar> / 2 ^ 52\<close> of half the exact absolute difference. A drag of the circle
  tool from (0, 0) to (20, 10), through any moves, appends the ellipse with centre (10, 5)
  and radii 10 and 5.\<close>

theorem circle_from_two_points:
  "makeElement CircleTool p1 p2 =
     Some (CircleEl (js_div (js_add (px p1) (px p2)) (Finite 2))
                    (js_div (js_add (py p1) (py p2)) (Finite 2))
                    (js_div (Math_abs (js_sub (px p2) (px p1))) (Finite 2))
                    (js_div (Math_abs (js_sub (py p2) (py p1))) (Finite 2)))
   \<and> makeShapeElement T_circle (Some p1) p2 = Inr (makeElement CircleTool p1 p2)
   \<and> (in_range (a + b) \<longrightarrow>
        (\<exists>c. js_div (js_add (Finite a) (Finite b)) (Finite 2) = Finite c \<and>
             \<bar>c - (a + b) / 2\<bar> \<le> \<bar>a + b\<bar> / 2 ^ 52))
   \<and> (in_range (b - a) \<longrightarrow>
        (\<exists>r. js_div (Math_abs (js_sub (Finite b) (Finite a))) (Finite 2) = Finite r \<and>
             \<bar>r - \<bar>b - a\<bar> / 2\<bar> \<le> \<bar>b - a\<bar> / 2 ^ 52))
   \<and> (tool s = T_circle \<and> getPos e1 = \<lparr>px = Finite 0, py = Finite 0\<rparr>
          \<and> getPos e2 = \<lparr>px = Finite 20, py = Finite 10\<rparr> \<longrightarrow>
        elements (run (MouseDown e1 # map MouseMove es @ [MouseUp e2]) s)
          = elements s @ [CircleEl (Finite 10) (Finite 5) (Finite 10) (Finite 5)] \<and>
        elements (run_jsx (MouseDown e1 # map MouseMove es @ [MouseUp e2]) s)
          = elements s @ [CircleEl (Finite 10) (Finite 5) (Finite 10) (Finite 5)])"
proof -
  have drag: "tool s = T_circle \<and> getPos e1 = \<lparr>px = Finite 0, py = Finite 0\<rparr>
          \<and> getPos e2 = \<lparr>px = Finite 20, py = Finite 10\<rparr> \<longrightarrow>
        elements (run (MouseDown e1 # map MouseMove es @ [MouseUp e2]) s)
          = elements s @ [CircleEl (Finite 10) (Finite 5) (Finite 10) (Finite 5)] \<and>
        elements (run_jsx (MouseDown e1 # map MouseMove es @ [MouseUp e2]) s)
          = elements s @ [CircleEl (Finite 10) (Finite 5) (Finite 10) (Finite 5)]"
  proof
    assume h: "tool s = T_circle \<and> getPos e1 = \<lparr>px = Finite 0, py = Finite 0\<rparr>
          \<and> getPos e2 = \<lparr>px = Finite 20, py = Finite 10\<rparr>"
    then have nd: "tool s \<noteq> T_draw" by simp
    from h circle_click[of s e1 e2] shape_drag[OF nd, of e1 es e2]
    show "elements (run (MouseDown e1 # map MouseMove es @ [MouseUp e2]) s)
          = elements s @ [CircleEl (Finite 10) (Finite 5) (Finite 10) (Finite 5)] \<and>
        elements (run_jsx (MouseDown e1 # map MouseMove es @ [MouseUp e2]) s)
          = elements s @ [CircleEl (Finite 10) (Finite 5) (Finite 10) (Finite 5)]"
      by (simp add: circle_scenario)
  qed
  show ?thesis
    using drag centre_error[of a b] radius_error[of b a]
    by (simp add: CircleTool_def CircleTool_makeElement_def makeShapeElement_def)
qed

text \<open>The second toolbar button selects the circle tool; the drag, with one move, is made on
  a canvas whose corner is at (3, 4).\<close>

theorem circle_from_two_points_witness:
  "in_range (3 + 4)
   \<and> (\<exists>c. js_div (js_add (Finite 3) (Finite 4)) (Finite 2) = Finite c \<and>
            \<bar>c - (3 + 4) / 2\<bar> \<le> \<bar>3 + 4\<bar> / 2 ^ 52)
   \<and> in_range (4 - 3)
   \<and> (\<exists>r. js_div (Math_abs (js_sub (Finite 4) (Finite 3))) (Finite 2) = Finite r \<and>
            \<bar>r - \<bar>4 - 3\<bar> / 2\<bar> \<le> \<bar>4 - 3\<bar> / 2 ^ 52)
   \<and> tool (run [ToolButton 1] initial) = T_circle
   \<and> getPos \<lparr>clientX = Finite 3, clientY = Finite 4, rect_left = Finite 3, rect_top = Finite 4\<rparr>
       = \<lparr>px = Finite 0, py = Finite 0\<rparr>
   \<and> getPos \<lparr>clientX = Finite 23, clientY = Finite 14, rect_left = Finite 3, rect_top = Finite 4\<rparr>
       = \<lparr>px = Finite 20, py = Finite 10\<rparr>
   \<and> elements (run (MouseDown \<lparr>clientX = Finite 3, clientY = Finite 4,
                                 rect_left = Finite 3, rect_top = Finite 4\<rparr>
                      # map MouseMove [\<lparr>clientX = Finite 9, clientY = Finite 9,
                                        rect_left = Finite 3, rect_top = Finite 4\<rparr>]
                      @ [MouseUp \<lparr>clientX = Finite 23, clientY = Finite 14,
                                   rect_left = Finite 3, rect_top = Finite 4\<rparr>])
                    (run [ToolButton 1] initial))
       = [CircleEl (Finite 10) (Finite 5) (Finite 10) (Finite 5)]"
proof -
  let ?E1 = "\<lparr>clientX = Finite 3, clientY = Finite 4, rect_left = Finite 3, rect_top = Finite 4\<rparr>"
  let ?E2 = "\<lparr>clientX = Finite 23, clientY = Finite 14, rect_left = Finite 3, rect_top = Finite 4\<rparr>"
  let ?M = "[\<lparr>clientX = Finite 9, clientY = Finite 9, rect_left = Finite 3, rect_top = Finite 4\<rparr>]"
  let ?S = "run [ToolButton 1] initial"
  have r1: "in_range (3 + 4)" by (rule in_range_ordinary) simp_all
  have r2: "in_range (4 - 3)" by (rule in_range_ordinary) simp_all
  have t: "tool ?S = T_circle" by (simp add: setTool_def TOOLS_def CircleTool_def)
  have el: "elements ?S = []" by (simp add: setTool_def TOOLS_def initial_fields)
  have g1: "getPos ?E1 = \<lparr>px = Finite 0, py = Finite 0\<rparr>"
    by (simp add: getPos_def js_sub_Finite round_double_def)
  have g2: "getPos ?E2 = \<lparr>px = Finite 20, py = Finite 10\<rparr>"
    by (simp add: getPos_def js_sub_Finite round_double_numeral)
  note T = circle_from_two_points
      [of "\<lparr>px = Finite 0, py = Finite 0\<rparr>" "\<lparr>px = Finite 20, py = Finite 10\<rparr>" 3 4 ?S ?E1 ?E2 ?M]
  from T r1 have c1: "\<exists>c. js_div (js_add (Finite 3) (Finite 4)) (Finite 2) = Finite c \<and>
            \<bar>c - (3 + 4) / 2\<bar> \<le> \<bar>3 + 4\<bar> / 2 ^ 52"
    by blast
  from T r2 have c2: "\<exists>r. js_div (Math_abs (js_sub (Finite 4) (Finite 3))) (Finite 2) = Finite r \<and>
            \<bar>r - \<bar>4 - 3\<bar> / 2\<bar> \<le> \<bar>4 - 3\<bar> / 2 ^ 52"
    by blast
  from T t g1 g2 have "elements (run (MouseDown ?E1 # map MouseMove ?M @ [MouseUp ?E2]) ?S)
          = elements ?S @ [CircleEl (Finite 10) (Finite 5) (Finite 10) (Finite 5)]"
    by blast
  then have c3: "elements (run (MouseDown ?E1 # map MouseMove ?M @ [MouseUp ?E2]) ?S)
          = [CircleEl (Finite 10) (Finite 5) (Finite 10) (Finite 5)]"
    by (simp only: el append_Nil)
  from r1 c1 r2 c2 t g1 g2 c3 show ?thesis by blast
qed

text \<open>The centre is not always the exact midpoint, nor a radius the exact half difference:
  the drag of the counterexample to the rectangle, made with the circle tool, commits the
  centre \<open>3371835658513067 / 2 ^ 44\<close>, one unit in the last place above the midpoint of the
  two corners, and the radius 100, not \<open>100 + 2 ^ - 47\<close>.\<close>

theorem circle_from_two_points_counterexample:
  "getPos \<lparr>clientX = Finite 100, clientY = Finite 50,
           rect_left = Finite (4691249611844267 / 562949953421312), rect_top = Finite 0\<rparr>
     = \<lparr>px = Finite (6450468216285867 / 70368744177664), py = Finite 50\<rparr>
   \<and> getPos \<lparr>clientX = Finite 300, clientY = Finite 80,
             rect_left = Finite (4691249611844267 / 562949953421312), rect_top = Finite 0\<rparr>
     = \<lparr>px = Finite (5131054262954667 / 17592186044416), py = Finite 80\<rparr>
   \<and> elements (run [ToolButton 1,
                     MouseDown \<lparr>clientX = Finite 100, clientY = Finite 50,
                       rect_left = Finite (4691249611844267 / 562949953421312), rect_top = Finite 0\<rparr>,
                     MouseUp \<lparr>clientX = Finite 300, clientY = Finite 80,
                       rect_left = Finite (4691249611844267 / 562949953421312), rect_top = Finite 0\<rparr>]
                    initial)
       = [CircleEl (Finite (3371835658513067 / 17592186044416)) (Finite 65) (Finite 100) (Finite 15)]
   \<and> Finite (3371835658513067 / 17592186044416)
       \<noteq> Finite ((6450468216285867 / 70368744177664 + 5131054262954667 / 17592186044416) / 2)
   \<and> Finite 100
       \<noteq> Finite (\<bar>5131054262954667 / 17592186044416 - 6450468216285867 / 70368744177664\<bar> / 2)"
proof -
  have a: "js_sub (Finite 100) (Finite (4691249611844267 / 562949953421312))
             = Finite (6450468216285867 / 70368744177664)"
    by code_simp
  have b: "js_sub (Finite 300) (Finite (4691249611844267 / 562949953421312))
             = Finite (5131054262954667 / 17592186044416)"
    by code_simp
  have c: "js_div (js_add (Finite (6450468216285867 / 70368744177664))
                          (Finite (5131054262954667 / 17592186044416))) (Finite 2)
             = Finite (3371835658513067 / 17592186044416)"
    by code_simp
  have d: "js_div (Math_abs (js_sub (Finite (5131054262954667 / 17592186044416))
                            (Finite (6450468216285867 / 70368744177664)))) (Finite 2) = Finite 100"
    by code_simp
  have e: "js_div (js_add (Finite 50) (Finite 80)) (Finite 2) = Finite 65"
    by (simp add: js_add_def js_div_def round_double_numeral)
  have f: "js_div (Math_abs (js_sub (Finite 80) (Finite 50))) (Finite 2) = Finite 15"
    by (simp add: js_sub_Finite js_div_def round_double_numeral)
  have g1: "getPos \<lparr>clientX = Finite 100, clientY = Finite 50,
           rect_left = Finite (4691249611844267 / 562949953421312), rect_top = Finite 0\<rparr>
     = \<lparr>px = Finite (6450468216285867 / 70368744177664), py = Finite 50\<rparr>"
    by (simp add: getPos_def a js_sub_numeral_zero)
  have g2: "getPos \<lparr>clientX = Finite 300, clientY = Finite 80,
             rect_left = Finite (4691249611844267 / 562949953421312), rect_top = Finite 0\<rparr>
     = \<lparr>px = Finite (5131054262954667 / 17592186044416), py = Finite 80\<rparr>"
    by (simp add: getPos_def b js_sub_numeral_zero)
  have t: "tool (setTool T_circle initial) = T_circle" by (simp add: setTool_def)
  show ?thesis
    using circle_click[OF t,
        of "\<lparr>clientX = Finite 100, clientY = Finite 50,
           rect_left = Finite (4691249611844267 / 562949953421312), rect_top = Finite 0\<rparr>"
        "\<lparr>clientX = Finite 300, clientY = Finite 80,
             rect_left = Finite (4691249611844267 / 562949953421312), rect_top = Finite 0\<rparr>"]
    by (simp add: initial_fields g1 g2 c d e f setTool_def TOOLS_def CircleTool_def)
qed

text \<open>C3. Exchanging the two points leaves the rectangle and the ellipse the same; the
  line keeps the order of its points, so exchanging them exchanges (x1, y1) with
  (x2, y2). This holds for the tool objects and for \<open>makeShapeElement\<close>, and for all
  numbers, the zeros, the infinities and NaN included.\<close>

theorem build_symmetry:
  "makeElement RectTool p1 p2 = makeElement RectTool p2 p1
   \<and> makeElement CircleTool p1 p2 = makeElement CircleTool p2 p1
   \<and> makeElement LineTool p1 p2 = Some (LineEl (px p1) (py p1) (px p2) (py p2))
   \<and> makeElement LineTool p2 p1 = Some (LineEl (px p2) (py p2) (px p1) (py p1))
   \<and> makeShapeElement T_rect (Some p1) p2 = makeShapeElement T_rect (Some p2) p1
   \<and> makeShapeElement T_circle (Some p1) p2 = makeShapeElement T_circle (Some p2) p1
   \<and> makeShapeElement T_line (Some p1) p2 = Inr (Some (LineEl (px p1) (py p1) (px p2) (py p2)))
   \<and> makeShapeElement T_line (Some p2) p1 = Inr (Some (LineEl (px p2) (py p2) (px p1) (py p1)))"
  by (simp add: RectTool_def RectTool_makeElement_def CircleTool_def CircleTool_makeElement_def
      LineTool_def LineTool_makeElement_def makeShapeElement_def
      Math_min_commute [of "px p1"] Math_min_commute [of "py p1"]
      js_add_commute [of "px p1"] js_add_commute [of "py p1"]
      Math_abs_js_sub_sym [of "px p2"] Math_abs_js_sub_sym [of "py p2"])

section \<open>The freehand drag\<close>

lemma onMouseMove_draw:
  assumes "active (drawingRef s)" "tool s = T_draw"
  shows "elements (state_of (onMouseMove e s)) = elements s"
    and "tool (state_of (onMouseMove e s)) = T_draw"
    and "drawingRef (state_of (onMouseMove e s))
           = (drawingRef s)\<lparr>path := path (drawingRef s) @ [getPos e]\<rparr>"
  using assms by (simp_all add: onMouseMove_def Let_def redraw_frame)

lemma onMouseMove_jsx_draw:
  assumes "active (drawingRef s)" "tool s = T_draw"
  shows "elements (state_of (onMouseMove_jsx e s)) = elements s"
    and "tool (state_of (onMouseMove_jsx e s)) = T_draw"
    and "drawingRef (state_of (onMouseMove_jsx e s))
           = (drawingRef s)\<lparr>path := path (drawingRef s) @ [getPos e]\<rparr>"
  using assms by (simp_all add: onMouseMove_jsx_def Let_def redraw_jsx_frame)

text \<open>A run of moves with the freehand tool appends the positions to the path, in order,
  and commits nothing.\<close>

lemma moves_draw:
  "active (drawingRef s) \<Longrightarrow> tool s = T_draw \<Longrightarrow>
   elements (run (map MouseMove es) s) = elements s \<and>
   tool (run (map MouseMove es) s) = T_draw \<and>
   drawingRef (run (map MouseMove es) s)
     = (drawingRef s)\<lparr>path := path (drawingRef s) @ map getPos es\<rparr>"
proof (induction es arbitrary: s)
  case Nil
  then show ?case by simp
next
  case (Cons e es)
  let ?s1 = "state_of (onMouseMove e s)"
  have a: "active (drawingRef ?s1)" and t: "tool ?s1 = T_draw"
    using Cons.prems by (simp_all add: onMouseMove_draw)
  from Cons.IH[OF a t] show ?case
    using Cons.prems by (simp add: onMouseMove_draw)
qed

lemma moves_jsx_draw:
  "active (drawingRef s) \<Longrightarrow> tool s = T_draw \<Longrightarrow>
   elements (run_jsx (map MouseMove es) s) = elements s \<and>
   tool (run_jsx (map MouseMove es) s) = T_draw \<and>
   drawingRef (run_jsx (map MouseMove es) s)
     = (drawingRef s)\<lparr>path := path (drawingRef s) @ map getPos es\<rparr>"
proof (induction es arbitrary: s)
  case Nil
  then show ?case by simp
next
  case (Cons e es)
  let ?s1 = "state_of (onMouseMove_jsx e s)"
  have a: "active (drawingRef ?s1)" and t: "tool ?s1 = T_draw"
    using Cons.prems by (simp_all add: onMouseMove_jsx_draw)
  from Cons.IH[OF a t] show ?case
    using Cons.prems by (simp add: onMouseMove_jsx_draw)
qed

lemma onMouseUp_draw:
  assumes "active (drawingRef s)" "tool s = T_draw"
  shows "elements (state_of (onMouseUp e s))
           = elements s @ [DrawEl (path (drawingRef s) @ [getPos e])]"
  using assms by (simp add: onMouseUp_def Let_def setElements_frame)

lemma onMouseUp_jsx_draw:
  assumes "active (drawingRef s)" "tool s = T_draw"
  shows "elements (state_of (onMouseUp_jsx e s))
           = elements s @ [DrawEl (path (drawingRef s) @ [getPos e])]"
  using assms by (simp add: onMouseUp_jsx_def Let_def setElements_jsx_frame)

text \<open>C4. With the freehand tool selected, a press at \<open>e0\<close>, moves through \<open>es\<close> and a
  release at \<open>ef\<close> leave the document as it was with one freehand element appended, whose
  path is the positions of the press, the moves and the release, in that order. This holds
  from any state and in both versions of the component.\<close>

theorem freehand_drag_commits_path:
  "tool s = T_draw \<Longrightarrow>
   elements (run (MouseDown e0 # map MouseMove es @ [MouseUp ef]) s)
     = elements s @ [DrawEl (map getPos (e0 # es @ [ef]))]
   \<and> elements (run_jsx (MouseDown e0 # map MouseMove es @ [MouseUp ef]) s)
     = elements s @ [DrawEl (map getPos (e0 # es @ [ef]))]"
proof -
  assume td: "tool s = T_draw"
  let ?s1 = "onMouseDown e0 s"
  have a: "active (drawingRef ?s1)" and t: "tool ?s1 = T_draw"
    and p: "path (drawingRef ?s1) = [getPos e0]" and el: "elements ?s1 = elements s"
    using td by (simp_all add: onMouseDown_def Let_def)
  note m = moves_draw[OF a t, of es]
  have a2: "active (drawingRef (run (map MouseMove es) ?s1))"
    using m a by simp
  have tsx: "elements (run (MouseDown e0 # map MouseMove es @ [MouseUp ef]) s)
           = elements s @ [DrawEl (map getPos (e0 # es @ [ef]))]"
    using m a2 p el by (simp add: run_append onMouseUp_draw)
  note mj = moves_jsx_draw[OF a t, of es]
  have a3: "active (drawingRef (run_jsx (map MouseMove es) ?s1))"
    using mj a by simp
  have jsx: "elements (run_jsx (MouseDown e0 # map MouseMove es @ [MouseUp ef]) s)
           = elements s @ [DrawEl (map getPos (e0 # es @ [ef]))]"
    using mj a3 p el by (simp add: run_jsx_append onMouseUp_jsx_draw)
  from tsx jsx show ?thesis by simp
qed

text \<open>The fourth toolbar button selects the freehand tool; the drag of the scenario, a
  press, two moves and a release, commits the four positions.\<close>

theorem freehand_drag_commits_path_witness:
  "tool (run [ToolButton 3] initial) = T_draw
   \<and> elements (run (MouseDown \<lparr>clientX = Finite 1, clientY = Finite 1,
                                 rect_left = Finite 0, rect_top = Finite 0\<rparr>
                     # map MouseMove [\<lparr>clientX = Finite 2, clientY = Finite 3,
                                       rect_left = Finite 0, rect_top = Finite 0\<rparr>,
                                      \<lparr>clientX = Finite 4, clientY = Finite 5,
                                       rect_left = Finite 0, rect_top = Finite 0\<rparr>]
                     @ [MouseUp \<lparr>clientX = Finite 6, clientY = Finite 7,
                                  rect_left = Finite 0, rect_top = Finite 0\<rparr>])
                    (run [ToolButton 3] initial))
       = [DrawEl [\<lparr>px = Finite 1, py = Finite 1\<rparr>, \<lparr>px = Finite 2, py = Finite 3\<rparr>,
                  \<lparr>px = Finite 4, py = Finite 5\<rparr>, \<lparr>px = Finite 6, py = Finite 7\<rparr>]]"
proof -
  have t: "tool (run [ToolButton 3] initial) = T_draw"
    by (simp add: setTool_def TOOLS_def FreehandTool_def)
  have e: "elements (run [ToolButton 3] initial) = []"
    by (simp add: setTool_def TOOLS_def initial_fields)
  show ?thesis
    using t e freehand_drag_commits_path [OF t,
            of "\<lparr>clientX = Finite 1, clientY = Finite 1, rect_left = Finite 0, rect_top = Finite 0\<rparr>"
               "[\<lparr>clientX = Finite 2, clientY = Finite 3, rect_left = Finite 0, rect_top = Finite 0\<rparr>,
                 \<lparr>clientX = Finite 4, clientY = Finite 5, rect_left = Finite 0, rect_top = Finite 0\<rparr>]"
               "\<lparr>clientX = Finite 6, clientY = Finite 7, rect_left = Finite 0, rect_top = Finite 0\<rparr>"]
    by (simp add: getPos_def js_sub_Finite round_double_numeral round_double_one)
qed

section \<open>Invariants of the drag state\<close>

lemma handle_path_inv: "path_inv s \<Longrightarrow> path_inv (state_of (handle ev s))"
proof (cases ev)
  case (MouseDown e)
  assume "path_inv s" with MouseDown show ?thesis
    by (simp add: path_inv_def onMouseDown_def Let_def)
next
  case (MouseMove e)
  assume "path_inv s" with MouseMove show ?thesis
    by (auto simp: path_inv_def onMouseMove_def Let_def redraw_frame split: option.splits)
next
  case (MouseUp e)
  assume "path_inv s" with MouseUp show ?thesis
    by (auto simp: path_inv_def onMouseUp_def Let_def setElements_frame Suc_le_eq
        TOOL_MAP_def TOOLS_def RectTool_def RectTool_makeElement_def
        CircleTool_def CircleTool_makeElement_def LineTool_def LineTool_makeElement_def
        FreehandTool_def CanvasTool_makeElement_def
        split: option.splits if_splits)
next
  case (MouseLeave e)
  assume "path_inv s" with MouseLeave show ?thesis
    by (auto simp: path_inv_def onMouseUp_def Let_def setElements_frame Suc_le_eq
        TOOL_MAP_def TOOLS_def RectTool_def RectTool_makeElement_def
        CircleTool_def CircleTool_makeElement_def LineTool_def LineTool_makeElement_def
        FreehandTool_def CanvasTool_makeElement_def
        split: option.splits if_splits)
next
  case (ToolButton i)
  assume "path_inv s" with ToolButton show ?thesis
    by (simp add: path_inv_def setTool_def)
next
  case ClearButton
  assume "path_inv s" with ClearButton show ?thesis
    by (simp add: path_inv_def clear_def setElements_frame)
next
  case (ImageLoaded img)
  assume "path_inv s" with ImageLoaded show ?thesis
    by (auto simp: path_inv_def img_onload_def Let_def setElements_frame)
qed

lemma handle_jsx_path_inv: "path_inv s \<Longrightarrow> path_inv (state_of (handle_jsx ev s))"
proof (cases ev)
  case (MouseDown e)
  assume "path_inv s" with MouseDown show ?thesis
    by (simp add: path_inv_def onMouseDown_def Let_def)
next
  case (MouseMove e)
  assume "path_inv s" with MouseMove show ?thesis
    by (auto simp: path_inv_def onMouseMove_jsx_def Let_def redraw_jsx_frame split: sum.splits)
next
  case (MouseUp e)
  assume "path_inv s" with MouseUp show ?thesis
    by (auto simp: path_inv_def onMouseUp_jsx_def Let_def setElements_jsx_frame Suc_le_eq
        makeShapeElement_def split: option.splits if_splits sum.splits)
next
  case (MouseLeave e)
  assume "path_inv s" with MouseLeave show ?thesis
    by (auto simp: path_inv_def onMouseUp_jsx_def Let_def setElements_jsx_frame Suc_le_eq
        makeShapeElement_def split: option.splits if_splits sum.splits)
next
  case (ToolButton i)
  assume "path_inv s" with ToolButton show ?thesis
    by (simp add: path_inv_def setTool_def)
next
  case ClearButton
  assume "path_inv s" with ClearButton show ?thesis
    by (simp add: path_inv_def clear_jsx_def setElements_jsx_frame)
next
  case (ImageLoaded img)
  assume "path_inv s" with ImageLoaded show ?thesis
    by (auto simp: path_inv_def img_onload_jsx_def Let_def setElements_jsx_frame)
qed

lemma run_path_inv: "path_inv s \<Longrightarrow> path_inv (run evs s)"
  by (induction evs arbitrary: s) (simp_all add: handle_path_inv)

lemma run_jsx_path_inv: "path_inv s \<Longrightarrow> path_inv (run_jsx evs s)"
  by (induction evs arbitrary: s) (simp_all add: handle_jsx_path_inv)

lemma path_inv_initial: "path_inv initial" "path_inv initial_jsx"
  by (simp_all add: path_inv_def initial_fields)

section \<open>Rendering and the context's configuration\<close>

lemma frame_emit [simp]:
  "strokeStyle (emit a c) = strokeStyle c" "lineWidth (emit a c) = lineWidth c"
  "fillStyle (emit a c) = fillStyle c" "saved (emit a c) = saved c"
  by (simp_all add: emit_def)

lemma frame_lineTo_each [simp]:
  "strokeStyle (lineTo_each ps c) = strokeStyle c" "lineWidth (lineTo_each ps c) = lineWidth c"
  "fillStyle (lineTo_each ps c) = fillStyle c" "saved (lineTo_each ps c) = saved c"
  by (induction ps arbitrary: c) simp_all

lemma frame_path_ops [simp]:
  "strokeStyle (beginPath c) = strokeStyle c" "lineWidth (beginPath c) = lineWidth c"
  "fillStyle (beginPath c) = fillStyle c" "saved (beginPath c) = saved c"
  "strokeStyle (fill c) = strokeStyle c" "lineWidth (fill c) = lineWidth c"
  "fillStyle (fill c) = fillStyle c" "saved (fill c) = saved c"
  "strokeStyle (stroke c) = strokeStyle c" "lineWidth (stroke c) = lineWidth c"
  "fillStyle (stroke c) = fillStyle c" "saved (stroke c) = saved c"
  by (simp_all add: beginPath_def fill_def stroke_def)



text \<open>Canvas.tsx: drawing an element raises nothing, whatever the element.\<close>

lemma drawElement_total: "\<exists>ctx'. drawElement ctx el = Inr ctx'"
  by (cases el) (simp_all add: drawElement_def Let_def TOOL_MAP_simps)


lemma config_emit [simp]: "config (emit a c) = config c"
  by (simp add: config_def)






text \<open>part\_001, called on its own with the empty freehand path and a fresh context:
  the styles stay set and the saved state stays on the stack. No run of the component
  makes this call.\<close>

lemma drawElement_jsx_short_path:
  "drawElement_jsx fresh_ctx (DrawEl []) =
     \<lparr>strokeStyle = ''#1a1a2e'', lineWidth = Finite 2,
      fillStyle = ''rgba(100, 149, 237, 0.25)'',
      saved = [(''#000000'', Finite 1, ''#000000'')], ops = []\<rparr>"
  by (simp add: drawElement_jsx_def Let_def save_def fresh_ctx_def)

lemma drawElements_total: "\<exists>ctx'. drawElements els ctx = Inr ctx'"
proof (induction els arbitrary: ctx)
  case Nil
  show ?case by simp
next
  case (Cons el els)
  obtain c1 where "drawElement ctx el = Inr c1"
    using drawElement_total by blast
  with Cons.IH[of c1] show ?case by simp
qed

lemma redraw_returns: "\<exists>s'. redraw d s = Inr s'"
proof -
  obtain c1 where c1: "drawElements (elements s) (emit (ClearRect (Finite 0) (Finite 0) (Finite 800) (Finite 600)) (canvas s)) = Inr c1"
    using drawElements_total by blast
  show ?thesis
  proof (cases d)
    case None
    with c1 show ?thesis by (simp add: redraw_def)
  next
    case (Some el)
    obtain c2 where "drawElement c1 el = Inr c2"
      using drawElement_total by blast
    with c1 Some show ?thesis by (simp add: redraw_def)
  qed
qed

lemma setElements_returns: "\<exists>s'. setElements f s = Inr s'"
  by (simp add: setElements_def redraw_returns)












lemma ops_restore [simp]: "ops (restore c) = ops c"
  by (simp add: restore_def split: list.splits prod.splits)





section \<open>Image upload\<close>

text \<open>C6, as amended. When an image of intrinsic width \<open>W > 0\<close> and height \<open>H\<close> has
  loaded, the callback raises nothing and appends one image element at (50, 50) of width
  \<open>w = min W 400\<close> and height \<^verbatim>\<open>Math.round((H / W) * w)\<close>, the quotient and the product
  being rounded to doubles, in both versions of the component. For sizes below \<open>2 ^ 32\<close>
  the height is an integer within \<open>1 / 2 + 2 ^ - 19\<close> of the exact \<open>(H / W) * w\<close>; for an
  800 by 600 image it is 300, with width 400.\<close>

theorem image_upload_placement:
  "0 < width img \<Longrightarrow>
     elements (state_of (img_onload img s)) =
       elements s @ [ImageEl img (Finite 50) (Finite 50) (Finite (of_nat (min (width img) 400)))
         (Math_round (js_mul (js_div (Finite (of_nat (height img))) (Finite (of_nat (width img))))
                             (Finite (of_nat (min (width img) 400)))))]
   \<and> (\<exists>s'. img_onload img s = Inr s')
   \<and> elements (img_onload_jsx img s) = elements (state_of (img_onload img s))
   \<and> (width img < 2 ^ 32 \<and> height img < 2 ^ 32 \<longrightarrow>
        (\<exists>h. Math_round (js_mul (js_div (Finite (of_nat (height img))) (Finite (of_nat (width img))))
                                 (Finite (of_nat (min (width img) 400)))) = Finite (of_int h)
            \<and> \<bar>of_int h - of_nat (height img) / of_nat (width img) * of_nat (min (width img) 400)\<bar>
                \<le> (1 / 2 + 1 / 2 ^ 19 :: rat)))
   \<and> (width img = 800 \<and> height img = 600 \<longrightarrow>
        elements (state_of (img_onload img s))
          = elements s @ [ImageEl img (Finite 50) (Finite 50) (Finite 400) (Finite 300)])"
proof -
  assume W: "0 < width img"
  have sz: "Math_round (js_mul (js_div (Finite 600) (Finite 800)) (Finite 400)) = Finite 300"
    by code_simp
  have a: "elements (state_of (img_onload img s)) =
       elements s @ [ImageEl img (Finite 50) (Finite 50) (Finite (of_nat (min (width img) 400)))
         (Math_round (js_mul (js_div (Finite (of_nat (height img))) (Finite (of_nat (width img))))
                             (Finite (of_nat (min (width img) 400)))))]"
    by (simp add: img_onload_def Let_def setElements_frame Math_min_width)
  have b: "\<exists>s'. img_onload img s = Inr s'"
    by (simp add: img_onload_def Let_def setElements_returns)
  have c: "elements (img_onload_jsx img s) = elements (state_of (img_onload img s))"
    by (simp add: img_onload_def img_onload_jsx_def Let_def setElements_frame setElements_jsx_frame)
  have d: "width img = 800 \<and> height img = 600 \<longrightarrow>
        elements (state_of (img_onload img s))
          = elements s @ [ImageEl img (Finite 50) (Finite 50) (Finite 400) (Finite 300)]"
    using sz by (auto simp: a)
  from a b c d image_height_error[OF W, of "height img"] show ?thesis by blast
qed

theorem image_upload_placement_witness:
  "0 < width \<lparr>width = 800, height = 600\<rparr>
   \<and> width \<lparr>width = 800, height = 600\<rparr> < 2 ^ 32 \<and> height \<lparr>width = 800, height = 600\<rparr> < 2 ^ 32
   \<and> width \<lparr>width = 800, height = 600\<rparr> = 800 \<and> height \<lparr>width = 800, height = 600\<rparr> = 600
   \<and> elements (state_of (img_onload \<lparr>width = 800, height = 600\<rparr> initial))
       = [ImageEl \<lparr>width = 800, height = 600\<rparr> (Finite 50) (Finite 50) (Finite 400) (Finite 300)]"
proof -
  let ?I = "\<lparr>width = 800, height = 600\<rparr>"
  have w: "0 < width ?I" by simp
  have b: "width ?I < 2 ^ 32 \<and> height ?I < 2 ^ 32" by simp
  have e: "width ?I = 800 \<and> height ?I = 600" by simp
  note T = image_upload_placement [OF w, of initial]
  from T e have "elements (state_of (img_onload ?I initial))
          = elements initial @ [ImageEl ?I (Finite 50) (Finite 50) (Finite 400) (Finite 300)]"
    by blast
  then have c: "elements (state_of (img_onload ?I initial))
       = [ImageEl ?I (Finite 50) (Finite 50) (Finite 400) (Finite 300)]"
    by (simp only: initial_fields append_Nil)
  from w b e c show ?thesis by blast
qed

text \<open>The height is not always the exact product rounded: for a 480 by 69 image the exact
  product is 57.5, which rounds to 58, and the double product is just below it; the
  committed height is 57.\<close>

theorem image_upload_placement_counterexample:
  "elements (state_of (img_onload \<lparr>width = 480, height = 69\<rparr> initial))
     = [ImageEl \<lparr>width = 480, height = 69\<rparr> (Finite 50) (Finite 50) (Finite 400) (Finite 57)]
   \<and> round (69 / 480 * min 480 400 :: rat) = 58"
proof -
  have h: "Math_round (js_mul (js_div (Finite 69) (Finite 480)) (Finite 400)) = Finite 57"
    by code_simp
  have r: "round (69 / 480 * min 480 400 :: rat) = 58"
    by (simp add: round_def floor_eq_iff)
  have "elements (state_of (img_onload \<lparr>width = 480, height = 69\<rparr> initial))
     = [ImageEl \<lparr>width = 480, height = 69\<rparr> (Finite 50) (Finite 50) (Finite 400) (Finite 57)]"
    using h by (simp add: img_onload_def Let_def setElements_frame Math_min_Finite initial_fields)
  with r show ?thesis by simp
qed

section \<open>Release without a drag, and clearing\<close>

text \<open>C7. When no drag is active, a release or a leave of the pointer returns without an
  error and leaves the whole state, document and drag state and canvas, as it was, in both
  versions of the component.\<close>

theorem mouseup_inactive_noop:
  "\<not> active (drawingRef s) \<Longrightarrow>
     handle (MouseUp e) s = Inr s \<and> handle (MouseLeave e) s = Inr s \<and>
     handle_jsx (MouseUp e) s = Inr s \<and> handle_jsx (MouseLeave e) s = Inr s"
  by (simp add: onMouseUp_def onMouseUp_jsx_def)

theorem mouseup_inactive_noop_witness:
  "\<not> active (drawingRef initial)
   \<and> handle (MouseUp \<lparr>clientX = Finite 9, clientY = Finite 9,
                       rect_left = Finite 0, rect_top = Finite 0\<rparr>) initial
       = Inr initial
   \<and> handle (MouseLeave \<lparr>clientX = Finite 9, clientY = Finite 9,
                          rect_left = Finite 0, rect_top = Finite 0\<rparr>) initial
       = Inr initial"
proof -
  have i: "\<not> active (drawingRef initial)" by (simp add: initial_fields)
  show ?thesis
    using i mouseup_inactive_noop
              [OF i, of "\<lparr>clientX = Finite 9, clientY = Finite 9,
                          rect_left = Finite 0, rect_top = Finite 0\<rparr>"]
    by simp
qed

text \<open>C8. From any state, the clear button returns without an error the state with the
  document empty and the canvas wiped (the redraw of the empty document); the tool and the
  drag state, that is the active flag, the start point and the path, are as before. A press
  and a release after it commit what the selected tool builds from the two positions, as
  the only element; with the image identifier as tool nothing is committed. Both versions
  of the component agree.\<close>

theorem clear_only_empties_document:
  "clear s = Inr (s\<lparr>elements := [],
                    canvas := emit (ClearRect (Finite 0) (Finite 0) (Finite 800) (Finite 600))
                                   (canvas s)\<rparr>)
   \<and> clear_jsx s = s\<lparr>elements := [],
                     canvas := emit (ClearRect (Finite 0) (Finite 0) (Finite 800) (Finite 600))
                                    (canvas s)\<rparr>
   \<and> elements (state_of (clear s)) = []
   \<and> tool (state_of (clear s)) = tool s
   \<and> drawingRef (state_of (clear s)) = drawingRef s
   \<and> elements (run [ClearButton, MouseDown e1, MouseUp e2] s) =
       (case tool s of
          T_rect \<Rightarrow>
            [RectEl (Math_min (px (getPos e1)) (px (getPos e2)))
                    (Math_min (py (getPos e1)) (py (getPos e2)))
                    (Math_abs (js_sub (px (getPos e2)) (px (getPos e1))))
                    (Math_abs (js_sub (py (getPos e2)) (py (getPos e1))))]
        | T_circle \<Rightarrow>
            [CircleEl (js_div (js_add (px (getPos e1)) (px (getPos e2))) (Finite 2))
                      (js_div (js_add (py (getPos e1)) (py (getPos e2))) (Finite 2))
                      (js_div (Math_abs (js_sub (px (getPos e2)) (px (getPos e1)))) (Finite 2))
                      (js_div (Math_abs (js_sub (py (getPos e2)) (py (getPos e1)))) (Finite 2))]
        | T_line \<Rightarrow>
            [LineEl (px (getPos e1)) (py (getPos e1)) (px (getPos e2)) (py (getPos e2))]
        | T_draw \<Rightarrow> [DrawEl [getPos e1, getPos e2]]
        | T_image \<Rightarrow> [])
   \<and> elements (run_jsx [ClearButton, MouseDown e1, MouseUp e2] s)
       = elements (run [ClearButton, MouseDown e1, MouseUp e2] s)"
proof -
  have c: "clear s = Inr (s\<lparr>elements := [],
                    canvas := emit (ClearRect (Finite 0) (Finite 0) (Finite 800) (Finite 600))
                                   (canvas s)\<rparr>)"
    by (simp add: clear_def setElements_def redraw_def)
  have cj: "clear_jsx s = s\<lparr>elements := [],
                     canvas := emit (ClearRect (Finite 0) (Finite 0) (Finite 800) (Finite 600))
                                    (canvas s)\<rparr>"
    by (simp add: clear_jsx_def setElements_jsx_def redraw_jsx_def)
  show ?thesis
    by (cases "tool s")
       (simp_all add: c cj onMouseDown_def onMouseUp_def onMouseUp_jsx_def Let_def
          TOOL_MAP_simps setElements_frame setElements_jsx_frame makeShapeElement_def
          RectTool_def RectTool_makeElement_def CircleTool_def CircleTool_makeElement_def
          LineTool_def LineTool_makeElement_def FreehandTool_def CanvasTool_makeElement_def)
qed

section \<open>Invariants of the reachable states\<close>

text \<open>C9. After any sequence of events on a freshly mounted component, every freehand
  element of the document has a path of at least two points, in both versions.\<close>

theorem committed_freehand_has_two_points:
  "(\<forall>el \<in> set (elements (run evs initial)). \<forall>ps. el = DrawEl ps \<longrightarrow> 2 \<le> length ps)
   \<and> (\<forall>el \<in> set (elements (run_jsx evs initial_jsx)).
        \<forall>ps. el = DrawEl ps \<longrightarrow> 2 \<le> length ps)"
  using run_path_inv[OF path_inv_initial(1), of evs]
        run_jsx_path_inv[OF path_inv_initial(2), of evs]
  by (auto simp: path_inv_def)

text \<open>The shortest freehand drag, a press and a release with no move between them, commits
  a path of two points.\<close>

theorem committed_freehand_has_two_points_witness:
  "DrawEl [\<lparr>px = Finite 4, py = Finite 4\<rparr>, \<lparr>px = Finite 4, py = Finite 4\<rparr>]
     \<in> set (elements (run [ToolButton 3,
                            MouseDown \<lparr>clientX = Finite 4, clientY = Finite 4,
                                       rect_left = Finite 0, rect_top = Finite 0\<rparr>,
                            MouseUp \<lparr>clientX = Finite 4, clientY = Finite 4,
                                     rect_left = Finite 0, rect_top = Finite 0\<rparr>]
                           initial))
   \<and> 2 \<le> length [\<lparr>px = Finite 4, py = Finite 4\<rparr>, \<lparr>px = Finite 4, py = Finite 4\<rparr>]"
proof -
  have el: "elements (run [ToolButton 3,
                           MouseDown \<lparr>clientX = Finite 4, clientY = Finite 4,
                                      rect_left = Finite 0, rect_top = Finite 0\<rparr>,
                           MouseUp \<lparr>clientX = Finite 4, clientY = Finite 4,
                                    rect_left = Finite 0, rect_top = Finite 0\<rparr>]
                          initial)
              = [DrawEl [\<lparr>px = Finite 4, py = Finite 4\<rparr>, \<lparr>px = Finite 4, py = Finite 4\<rparr>]]"
    by (simp add: setTool_def TOOLS_def FreehandTool_def onMouseDown_def onMouseUp_def Let_def
        setElements_frame initial_fields getPos_def js_sub_Finite round_double_numeral)
  show ?thesis
    using el committed_freehand_has_two_points
               [of "[ToolButton 3,
                     MouseDown \<lparr>clientX = Finite 4, clientY = Finite 4,
                                rect_left = Finite 0, rect_top = Finite 0\<rparr>,
                     MouseUp \<lparr>clientX = Finite 4, clientY = Finite 4,
                              rect_left = Finite 0, rect_top = Finite 0\<rparr>]"]
    by simp
qed

lemma onMouseMove_returns: "tool s \<noteq> T_image \<Longrightarrow> \<exists>s'. onMouseMove e s = Inr s'"
  by (cases "tool s")
     (simp_all add: onMouseMove_def Let_def TOOL_MAP_simps redraw_returns split: option.splits)

lemma onMouseUp_returns: "tool s \<noteq> T_image \<Longrightarrow> \<exists>s'. onMouseUp e s = Inr s'"
  by (cases "tool s")
     (simp_all add: onMouseUp_def Let_def TOOL_MAP_simps setElements_returns
        split: option.splits)

lemma handle_tool: "tool s \<noteq> T_image \<Longrightarrow> tool (state_of (handle ev s)) \<noteq> T_image"
  by (cases ev)
     (auto simp: onMouseDown_def onMouseMove_def onMouseUp_def Let_def redraw_frame
        setElements_frame setTool_def TOOLS_def clear_def img_onload_def nth_Cons
        RectTool_def CircleTool_def LineTool_def FreehandTool_def
        split: option.splits nat.splits)

lemma run_tool: "tool s \<noteq> T_image \<Longrightarrow> tool (run evs s) \<noteq> T_image"
  by (induction evs arbitrary: s) (simp_all add: handle_tool)

lemma handle_jsx_tool: "tool s \<noteq> T_image \<Longrightarrow> tool (state_of (handle_jsx ev s)) \<noteq> T_image"
  by (cases ev)
     (auto simp: onMouseDown_def onMouseMove_jsx_def onMouseUp_jsx_def Let_def redraw_jsx_frame
        setElements_jsx_frame setTool_def TOOLS_jsx_def clear_jsx_def img_onload_jsx_def nth_Cons
        split: option.splits nat.splits sum.splits)

lemma run_jsx_tool: "tool s \<noteq> T_image \<Longrightarrow> tool (run_jsx evs s) \<noteq> T_image"
  by (induction evs arbitrary: s) (simp_all add: handle_jsx_tool)

lemma not_image: "t \<noteq> T_image \<longleftrightarrow> t \<in> {T_rect, T_circle, T_line, T_draw}"
  by (cases t) simp_all

lemma shape_tool_builds:
  "t \<noteq> T_image \<Longrightarrow>
   t = T_draw \<or> (\<exists>tool_obj. TOOL_MAP t = Some tool_obj \<and> (\<forall>a b. makeElement tool_obj a b \<noteq> None))"
  by (cases t)
     (simp_all add: TOOL_MAP_simps RectTool_def RectTool_makeElement_def CircleTool_def
        CircleTool_makeElement_def LineTool_def LineTool_makeElement_def)

text \<open>C10. After any sequence of events on a freshly mounted component the selected tool
  is one of rect, circle, line and draw, never image. So \<open>TOOL_MAP\<close> has an entry for it,
  the render's cursor lookup, the move handler and the release handler return without
  raising, and a tool other than draw builds an element from any two points: the branch
  for a missing element is not taken. In part\_001, which has no tool map, the selected
  tool is one of the same four.\<close>

theorem tool_never_image:
  "tool (run evs initial) \<in> {T_rect, T_circle, T_line, T_draw}
   \<and> TOOL_MAP (tool (run evs initial)) \<noteq> None
   \<and> (\<exists>c. activeTool_cursor (run evs initial) = Inr c)
   \<and> (\<forall>e. \<exists>s'. onMouseMove e (run evs initial) = Inr s')
   \<and> (\<forall>e. \<exists>s'. onMouseUp e (run evs initial) = Inr s')
   \<and> (tool (run evs initial) = T_draw \<or>
        (\<exists>tool_obj. TOOL_MAP (tool (run evs initial)) = Some tool_obj \<and>
                    (\<forall>a b. makeElement tool_obj a b \<noteq> None)))
   \<and> tool (run_jsx evs initial_jsx) \<in> {T_rect, T_circle, T_line, T_draw}"
proof -
  have a: "tool (run evs initial) \<noteq> T_image"
    by (rule run_tool) (simp add: initial_fields)
  have b: "tool (run_jsx evs initial_jsx) \<noteq> T_image"
    by (rule run_jsx_tool) (simp add: initial_fields)
  have c: "TOOL_MAP (tool (run evs initial)) \<noteq> None"
    using a by (cases "tool (run evs initial)") (simp_all add: TOOL_MAP_simps)
  then have d: "\<exists>c. activeTool_cursor (run evs initial) = Inr c"
    by (auto simp: activeTool_cursor_def)
  show ?thesis
    using a b c d onMouseMove_returns[OF a] onMouseUp_returns[OF a] shape_tool_builds[OF a]
    by (simp add: not_image)
qed

end
